theory Spec2Isabelle
  imports Complex_Main "HOL-Library.List_Lexorder" "HOL-Library.Char_ord"
    "HOL-Library.Product_Lexorder"
begin

section \<open>Message types (ros.ts) and their normalisation (normalizeMessages.ts)\<close>

text \<open>
  A JavaScript \<^verbatim>\<open>number\<close> is either a finite value or one of the three non-finite
  values. None of the functions below computes with numbers; they only move them around,
  so a finite value is carried as a real.
\<close>

datatype number = Finite real | PosInfinity | NegInfinity | NaN

fun isFinite :: "number \<Rightarrow> bool" where
  "isFinite (Finite r) = True"
| "isFinite PosInfinity = False"
| "isFinite NegInfinity = False"
| "isFinite NaN = False"

datatype Time = Time (sec: int) (nsec: int)

datatype Vector3 = Vector3 (vx: number) (vy: number) (vz: number)

datatype Quaternion = Quaternion (qx: number) (qy: number) (qz: number) (qw: number)

datatype RosTransform = RosTransform (translation: Vector3) (rotation: Quaternion)

datatype Header = Header (frame_id: string) (stamp: Time) (seq: "number option")

datatype TransformStamped =
  TransformStamped (header: Header) (child_frame_id: string) (transform: RosTransform)

text \<open>
  \<^verbatim>\<open>Partial<T>\<close> and \<^verbatim>\<open>DeepPartial<T>\<close>: every field may be missing.
  An argument of type \<^verbatim>\<open>T | undefined\<close> is a \<open>T option\<close>.
\<close>

datatype PartialTime = PartialTime (psec: "int option") (pnsec: "int option")

datatype PartialVector3 =
  PartialVector3 (pvx: "number option") (pvy: "number option") (pvz: "number option")

datatype PartialQuaternion =
  PartialQuaternion (pqx: "number option") (pqy: "number option") (pqz: "number option")
    (pqw: "number option")

datatype RawTransform =
  RawTransform (raw_translation: "PartialVector3 option") (raw_rotation: "PartialQuaternion option")

datatype RawHeader =
  RawHeader (raw_frame_id: "string option") (raw_stamp: "PartialTime option")
    (raw_seq: "number option")

datatype RawTransformStamped =
  RawTransformStamped (raw_header: "RawHeader option") (raw_child_frame_id: "string option")
    (raw_transform: "RawTransform option")

text \<open>The operator \<^verbatim>\<open>a ?? b\<close>.\<close>

fun orElse :: "'a option \<Rightarrow> 'a \<Rightarrow> 'a" where
  "orElse None d = d"
| "orElse (Some v) d = v"

fun normalizeTime :: "PartialTime option \<Rightarrow> Time" where
  "normalizeTime None = Time 0 0"
| "normalizeTime (Some t) = Time (orElse (psec t) 0) (orElse (pnsec t) 0)"

fun normalizeVector3 :: "PartialVector3 option \<Rightarrow> Vector3" where
  "normalizeVector3 None = Vector3 (Finite 0) (Finite 0) (Finite 0)"
| "normalizeVector3 (Some v) =
     Vector3 (orElse (pvx v) (Finite 0)) (orElse (pvy v) (Finite 0)) (orElse (pvz v) (Finite 0))"

fun normalizeQuaternion :: "PartialQuaternion option \<Rightarrow> Quaternion" where
  "normalizeQuaternion None = Quaternion (Finite 0) (Finite 0) (Finite 0) (Finite 1)"
| "normalizeQuaternion (Some q) =
     Quaternion (orElse (pqx q) (Finite 0)) (orElse (pqy q) (Finite 0))
       (orElse (pqz q) (Finite 0)) (orElse (pqw q) (Finite 0))"

fun normalizeHeader :: "RawHeader option \<Rightarrow> Header" where
  "normalizeHeader None = Header [] (normalizeTime None) None"
| "normalizeHeader (Some h) =
     Header (orElse (raw_frame_id h) []) (normalizeTime (raw_stamp h)) (raw_seq h)"

fun normalizeTransform :: "RawTransform option \<Rightarrow> RosTransform" where
  "normalizeTransform None = RosTransform (normalizeVector3 None) (normalizeQuaternion None)"
| "normalizeTransform (Some t) =
     RosTransform (normalizeVector3 (raw_translation t)) (normalizeQuaternion (raw_rotation t))"

fun normalizeTransformStamped :: "RawTransformStamped option \<Rightarrow> TransformStamped" where
  "normalizeTransformStamped None =
     TransformStamped (normalizeHeader None) [] (normalizeTransform None)"
| "normalizeTransformStamped (Some m) =
     TransformStamped (normalizeHeader (raw_header m)) (orElse (raw_child_frame_id m) [])
       (normalizeTransform (raw_transform m))"

text \<open>\<^verbatim>\<open>normalizeTFMessage\<close>: a missing message or a missing list is the empty list.\<close>

fun normalizeTFMessage :: "RawTransformStamped list option option \<Rightarrow> TransformStamped list" where
  "normalizeTFMessage None = []"
| "normalizeTFMessage (Some None) = []"
| "normalizeTFMessage (Some (Some ms)) = map (\<lambda>m. normalizeTransformStamped (Some m)) ms"

text \<open>
  \<^verbatim>\<open>toNanoSec\<close> of the rostime package (an external library): seconds and nanoseconds
  as one count of nanoseconds.
\<close>

definition toNanoSec :: "Time \<Rightarrow> int" where
  "toNanoSec t = sec t * 1000000000 + nsec t"

section \<open>The transform tree\<close>

text \<open>
  Modelled from the spec: the class \<^verbatim>\<open>Transform\<close> is not among the sources. By the
  spec it is an immutable value of a translation (three numbers) and a rotation (four
  numbers), and its rotation is always normalized before use. The Renderer constructs it
  from two arrays, position and rotation. As the value is immutable it is represented by
  the two arrays it was constructed from; the unit rotation that the class works with is
  \<open>unitRotation\<close> below, derived from them.
\<close>

datatype Transform = Transform (tf_position: "number list") (tf_rotation: "number list")

text \<open>The value of a finite number; the non-finite numbers have none and are given 0.\<close>

fun numberValue :: "number \<Rightarrow> real" where
  "numberValue (Finite r) = r"
| "numberValue PosInfinity = 0"
| "numberValue NegInfinity = 0"
| "numberValue NaN = 0"

definition normSquared :: "number list \<Rightarrow> real" where
  "normSquared q = (\<Sum>c\<leftarrow>q. (numberValue c)\<^sup>2)"

text \<open>
  Modelled from the spec: a rotation can be normalized when its numbers are finite and its
  norm is not zero (the all-zero rotation cannot). The norm is taken over the reals.
\<close>

definition normalizable :: "number list \<Rightarrow> bool" where
  "normalizable q = (list_all isFinite q \<and> normSquared q \<noteq> 0)"

text \<open>
  Modelled from the spec: the normalized rotation of a transform, the rotation divided by
  its norm; there is none when the rotation cannot be normalized.
\<close>

definition unitRotation :: "Transform \<Rightarrow> real list option" where
  "unitRotation x =
     (if normalizable (tf_rotation x)
      then Some (map (\<lambda>c. numberValue c / sqrt (normSquared (tf_rotation x))) (tf_rotation x))
      else None)"

text \<open>
  Modelled from the spec: a transform is malformed when it has a non-finite number or a
  rotation that cannot be normalized; otherwise it is well formed.
\<close>

definition wellFormedTransform :: "Transform \<Rightarrow> bool" where
  "wellFormedTransform x = (list_all isFinite (tf_position x) \<and> normalizable (tf_rotation x))"

text \<open>
  Modelled from the spec: the classes \<^verbatim>\<open>CoordinateFrame\<close> and \<^verbatim>\<open>TransformTree\<close>
  of \<^verbatim>\<open>./transforms\<close> are not among the sources. The spec's data model: a frame has a
  unique string identifier and a time-ordered sequence of edges (timestamp in nanoseconds,
  parent frame identifier, transform); the tree is a mapping from frame identifier to frame
  with a configured retention duration in nanoseconds. The mapping is kept as the list of
  its frames in insertion order (the order \<^verbatim>\<open>frames().values()\<close> iterates in) and is
  looked up by identifier. What the tree logs or reports when it rejects a record (the
  spec: rejected, logged, not raised) is kept with it, oldest first.
\<close>

datatype TreeReport =
    MalformedTransform string string int
  | SelfParent string int

record CoordinateFrame =
  cf_id :: string
  cf_edges :: "(int \<times> string \<times> Transform) list"

record TransformTree =
  frames :: "CoordinateFrame list"
  maxStorageTime :: int
  reported :: "TreeReport list"

text \<open>
  Modelled from the spec: the constructor of \<^verbatim>\<open>TransformTree\<close>, which takes the
  retention duration; a new tree has no frames.
\<close>

definition newTransformTree :: "int \<Rightarrow> TransformTree" where
  "newTransformTree storageTime =
     \<lparr>frames = [], maxStorageTime = storageTime, reported = []\<rparr>"

text \<open>
  Modelled from the spec: \<^verbatim>\<open>frame(id)\<close>, the lookup of a frame by its identifier,
  undefined for an unknown identifier; it does not change the tree.
\<close>

definition frame :: "TransformTree \<Rightarrow> string \<Rightarrow> CoordinateFrame option" where
  "frame t k = find (\<lambda>f. cf_id f = k) (frames t)"

text \<open>Modelled from the spec: \<^verbatim>\<open>hasFrame(id)\<close>, whether the tree has the frame.\<close>

definition hasFrame :: "TransformTree \<Rightarrow> string \<Rightarrow> bool" where
  "hasFrame t k = (frame t k \<noteq> None)"

section \<open>Renderer\<close>

definition TRANSFORM_STORAGE_TIME_NS :: int where
  "TRANSFORM_STORAGE_TIME_NS = 60 * 1000000000"

definition DEFAULT_FRAME_IDS :: "string list" where
  "DEFAULT_FRAME_IDS = [''base_link'', ''odom'', ''map'', ''earth'']"

datatype SelectEntry = SelectEntry (label: string) (entry_value: string)

text \<open>Of the Renderer's events, the three that concern the tree and the settings.\<close>

datatype RendererEvent = transformTreeUpdated | settingsTreeChange | configChange

datatype LogMessage =
    AddedTransform string string
  | UpdatedTransform string string
  | SettingRenderFrame string
  | SettingFixedFrame string
  | ChangingFixedFrame string string

text \<open>
  The fields of the Renderer that the transform handling reads and writes. \<open>emitted\<close> is
  the sequence of events passed to \<^verbatim>\<open>this.emit\<close>, \<open>logged\<close> the sequence of
  \<^verbatim>\<open>log.debug\<close> messages, both oldest first.
\<close>

record Renderer =
  transformTree :: TransformTree
  coordinateFrameList :: "SelectEntry list"
  fixedFrameId :: "string option"
  renderFrameId :: "string option"
  emitted :: "RendererEvent list"
  logged :: "LogMessage list"

definition initialRenderer :: Renderer where
  "initialRenderer =
     \<lparr>transformTree = newTransformTree TRANSFORM_STORAGE_TIME_NS,
      coordinateFrameList = [],
      fixedFrameId = None,
      renderFrameId = None,
      emitted = [],
      logged = []\<rparr>"

text \<open>
  The remaining operations of \<^verbatim>\<open>TransformTree\<close> and \<^verbatim>\<open>CoordinateFrame\<close> are
  parameters of the Renderer's functions below, and the theorems about the Renderer hold
  for every implementation of them. The definitions that follow, each modelled from the
  spec, instantiate the parameters in the examples; what a claim says of the tree's own
  behaviour is settled on them.
\<close>

text \<open>
  Modelled from the spec: \<^verbatim>\<open>getOrCreateFrame(id)\<close> is not among the sources. It is
  idempotent and gives the existing frame or a newly created empty one; the tree it leaves
  is returned.
\<close>

definition getOrCreateFrame :: "TransformTree \<Rightarrow> string \<Rightarrow> TransformTree" where
  "getOrCreateFrame t k =
     (case frame t k of
        Some f \<Rightarrow> t
      | None \<Rightarrow> t\<lparr>frames := frames t @ [\<lparr>cf_id = k, cf_edges = []\<rparr>]\<rparr>)"

text \<open>
  Modelled from the spec: \<^verbatim>\<open>latestParent()\<close> is not among the sources. It is the
  parent of the most recent edge, or none for a frame with no edges.
\<close>

definition latestParent :: "CoordinateFrame \<Rightarrow> string option" where
  "latestParent f = (case cf_edges f of [] \<Rightarrow> None | e # es \<Rightarrow> Some (fst (snd (last (e # es)))))"

text \<open>
  Modelled from the spec: \<^verbatim>\<open>addEdge\<close> is not among the sources. It inserts the edge
  in time order; an edge at exactly the same timestamp is replaced.
\<close>

fun addEdge :: "int \<times> string \<times> Transform \<Rightarrow> (int \<times> string \<times> Transform) list
    \<Rightarrow> (int \<times> string \<times> Transform) list" where
  "addEdge e [] = [e]"
| "addEdge e (d # ds) =
     (if fst e < fst d then e # d # ds
      else if fst e = fst d then e # ds
      else d # addEdge e ds)"

text \<open>
  Modelled from the spec: \<^verbatim>\<open>TransformTree.addTransform\<close> is not among the sources.
  A malformed transform (non-finite numbers, a rotation that cannot be normalized) is
  rejected at ingestion: it is logged, the edge is dropped and the tree is left as it was.
  Otherwise \<open>addTransform\<close> creates both frames if needed, rejects a frame that is its own
  parent (logged, not raised), delegates to \<open>addEdge\<close> on the child frame, and returns
  whether the topology changed (a new frame or a new parent) together with the tree it
  leaves.
\<close>

definition addTransform :: "TransformTree \<Rightarrow> string \<Rightarrow> string \<Rightarrow> int \<Rightarrow> Transform
    \<Rightarrow> bool \<times> TransformTree" where
  "addTransform t childId parentId time tf =
     (if \<not> wellFormedTransform tf then
        (False, t\<lparr>reported := reported t @ [MalformedTransform childId parentId time]\<rparr>)
      else
        (let newChild = \<not> hasFrame t childId;
             t1 = getOrCreateFrame t childId;
             newParent = \<not> hasFrame t1 parentId;
             t2 = getOrCreateFrame t1 parentId
         in if childId = parentId then
              (newChild \<or> newParent, t2\<lparr>reported := reported t2 @ [SelfParent childId time]\<rparr>)
            else
              (let reparented =
                     (\<exists>f \<in> set (frames t2). cf_id f = childId \<and> latestParent f \<noteq> Some parentId);
                   fs = map (\<lambda>f. if cf_id f = childId
                                   then f\<lparr>cf_edges := addEdge (time, parentId, tf) (cf_edges f)\<rparr>
                                   else f) (frames t2)
               in (newChild \<or> newParent \<or> reparented, t2\<lparr>frames := fs\<rparr>))))"

text \<open>
  Modelled from the spec: \<^verbatim>\<open>root()\<close> is not among the sources. It follows the chain
  of latest parents until a frame with no parent is reached; the walk is cut off after as
  many steps as the tree has frames, which guards against a cycle.
\<close>

fun rootFrom :: "nat \<Rightarrow> TransformTree \<Rightarrow> CoordinateFrame \<Rightarrow> CoordinateFrame" where
  "rootFrom 0 t f = f"
| "rootFrom (Suc n) t f =
     (case latestParent f of
        None \<Rightarrow> f
      | Some p \<Rightarrow> (case frame t p of None \<Rightarrow> f | Some pf \<Rightarrow> rootFrom n t pf))"

definition root :: "TransformTree \<Rightarrow> CoordinateFrame \<Rightarrow> CoordinateFrame" where
  "root t f = rootFrom (length (frames t)) t f"

text \<open>
  Modelled from the spec: \<^verbatim>\<open>frameList()\<close> is not among the sources. It produces the
  list of all known frame identifiers, grouped by root and sorted: the frames are ordered
  by the identifier of their root and, under the same root, by their own identifier.
\<close>

definition frameList :: "TransformTree \<Rightarrow> SelectEntry list" where
  "frameList t =
     map (\<lambda>f. SelectEntry (cf_id f) (cf_id f))
       (sort_key (\<lambda>f. (cf_id (root t f), cf_id f)) (frames t))"

subsection \<open>Default frame selection\<close>

text \<open>
  The loop over \<^verbatim>\<open>DEFAULT_FRAME_IDS\<close> of \<^verbatim>\<open>defaultFrameId\<close>: the identifier of the
  first listed frame that the tree has.
\<close>

fun preferredFrame :: "TransformTree \<Rightarrow> string list \<Rightarrow> string option" where
  "preferredFrame t [] = None"
| "preferredFrame t (k # ks) =
     (case frame t k of Some f \<Rightarrow> Some (cf_id f) | None \<Rightarrow> preferredFrame t ks)"

text \<open>
  A JavaScript \<^verbatim>\<open>Map\<close> keeps its entries in the order in which their keys were first
  set; \<^verbatim>\<open>set\<close> on a key that is present replaces the value in place.
\<close>

fun mapSet :: "'k \<Rightarrow> 'v \<Rightarrow> ('k \<times> 'v) list \<Rightarrow> ('k \<times> 'v) list" where
  "mapSet k v [] = [(k, v)]"
| "mapSet k v (e # m) = (if fst e = k then (k, v) # m else e # mapSet k v m)"

text \<open>
  One round of the counting loop. \<open>rootOf\<close> stands for \<^verbatim>\<open>frame.root()\<close>, whose body
  is not among the sources: it is a parameter.
\<close>

definition countRoot :: "(TransformTree \<Rightarrow> CoordinateFrame \<Rightarrow> CoordinateFrame) \<Rightarrow> TransformTree
    \<Rightarrow> (string \<times> nat) list \<Rightarrow> CoordinateFrame \<Rightarrow> (string \<times> nat) list" where
  "countRoot rootOf t rootsToCounts f =
     (let rootId = cf_id (rootOf t f)
      in mapSet rootId (orElse (map_of rootsToCounts rootId) 0 + 1) rootsToCounts)"

text \<open>
  The fallback of \<^verbatim>\<open>defaultFrameId\<close>: count the frames per root, sort the entries by
  decreasing count (\<^verbatim>\<open>Array.prototype.sort\<close> is stable) and take the first key.
\<close>

definition rootWithMostFrames :: "(TransformTree \<Rightarrow> CoordinateFrame \<Rightarrow> CoordinateFrame)
    \<Rightarrow> TransformTree \<Rightarrow> string option" where
  "rootWithMostFrames rootOf t =
     (let rootsToCounts = foldl (countRoot rootOf t) [] (frames t);
          rootsArray = sort_key (\<lambda>e. - int (snd e)) rootsToCounts
      in case rootsArray of [] \<Rightarrow> None | e # es \<Rightarrow> Some (fst e))"

definition defaultFrameId :: "(TransformTree \<Rightarrow> CoordinateFrame \<Rightarrow> CoordinateFrame)
    \<Rightarrow> TransformTree \<Rightarrow> string option" where
  "defaultFrameId rootOf t =
     (case preferredFrame t DEFAULT_FRAME_IDS of
        Some k \<Rightarrow> Some k
      | None \<Rightarrow> rootWithMostFrames rootOf t)"

text \<open>The number of known frames whose root has the identifier \<open>r\<close>.\<close>

definition framesWithRoot :: "(TransformTree \<Rightarrow> CoordinateFrame \<Rightarrow> CoordinateFrame)
    \<Rightarrow> TransformTree \<Rightarrow> string \<Rightarrow> nat" where
  "framesWithRoot rootOf t r = length (filter (\<lambda>f. cf_id (rootOf t f) = r) (frames t))"

subsection \<open>Frame update\<close>

text \<open>
  \<^verbatim>\<open>_updateFrames\<close> from the lookup of the render frame on: the fixed frame becomes the
  root of the render frame, or undefined when the tree has no frame of that name.
\<close>

definition updateFixedFrame :: "(TransformTree \<Rightarrow> CoordinateFrame \<Rightarrow> CoordinateFrame)
    \<Rightarrow> Renderer \<Rightarrow> string \<Rightarrow> Renderer" where
  "updateFixedFrame rootOf st rf =
     (case frame (transformTree st) rf of
        None \<Rightarrow> st\<lparr>fixedFrameId := None\<rparr>
      | Some f \<Rightarrow>
          (let rootFrameId = cf_id (rootOf (transformTree st) f)
           in if fixedFrameId st \<noteq> Some rootFrameId
              then st\<lparr>fixedFrameId := Some rootFrameId,
                      logged := logged st @
                        [case fixedFrameId st of
                           None \<Rightarrow> SettingFixedFrame rootFrameId
                         | Some old \<Rightarrow> ChangingFixedFrame old rootFrameId]\<rparr>
              else st))"

definition updateFrames :: "(TransformTree \<Rightarrow> CoordinateFrame \<Rightarrow> CoordinateFrame)
    \<Rightarrow> Renderer \<Rightarrow> Renderer" where
  "updateFrames rootOf st =
     (case renderFrameId st of
        None \<Rightarrow>
          (case defaultFrameId rootOf (transformTree st) of
             None \<Rightarrow> st\<lparr>renderFrameId := None, fixedFrameId := None\<rparr>
           | Some d \<Rightarrow>
               updateFixedFrame rootOf
                 (st\<lparr>renderFrameId := Some d, logged := logged st @ [SettingRenderFrame d]\<rparr>) d)
      | Some rf \<Rightarrow> updateFixedFrame rootOf st rf)"

subsection \<open>Ingestion of transforms\<close>

text \<open>
  \<^verbatim>\<open>addTransformMessage\<close>. \<open>addTf\<close> stands for \<^verbatim>\<open>TransformTree.addTransform\<close> (it
  returns its boolean result and the tree it leaves behind) and \<open>frameListOf\<close> for
  \<^verbatim>\<open>TransformTree.frameList\<close>; both are parameters.
\<close>

definition addTransformMessage ::
    "(TransformTree \<Rightarrow> string \<Rightarrow> string \<Rightarrow> int \<Rightarrow> Transform \<Rightarrow> bool \<times> TransformTree)
    \<Rightarrow> (TransformTree \<Rightarrow> SelectEntry list) \<Rightarrow> Renderer \<Rightarrow> TransformStamped \<Rightarrow> Renderer" where
  "addTransformMessage addTf frameListOf st tf =
     (let addParent = \<not> hasFrame (transformTree st) (frame_id (header tf));
          addChild = \<not> hasFrame (transformTree st) (child_frame_id tf);
          stampNs = toNanoSec (stamp (header tf));
          t = translation (transform tf);
          q = rotation (transform tf);
          tr = Transform [vx t, vy t, vz t] [qx q, qy q, qz q, qw q];
          res = addTf (transformTree st) (child_frame_id tf) (frame_id (header tf)) stampNs tr;
          updated = fst res;
          st1 = st\<lparr>transformTree := snd res\<rparr>
      in if addParent \<or> addChild then
           st1\<lparr>coordinateFrameList := frameListOf (transformTree st1),
               logged := logged st1 @ [AddedTransform (frame_id (header tf)) (child_frame_id tf)],
               emitted := emitted st1 @ [transformTreeUpdated]\<rparr>
         else if updated then
           st1\<lparr>coordinateFrameList := frameListOf (transformTree st1),
               logged := logged st1 @ [UpdatedTransform (frame_id (header tf)) (child_frame_id tf)],
               emitted := emitted st1 @ [transformTreeUpdated]\<rparr>
         else st1)"

text \<open>
  A transform record is malformed when one of the numbers of its translation and rotation
  is not finite or its rotation cannot be normalized, as the all-zero rotation. (The stamp
  of a record is a pair of integers.)
\<close>

definition malformed :: "TransformStamped \<Rightarrow> bool" where
  "malformed tf =
     (let t = translation (transform tf); q = rotation (transform tf)
      in \<not> (isFinite (vx t) \<and> isFinite (vy t) \<and> isFinite (vz t)
            \<and> isFinite (qx q) \<and> isFinite (qy q) \<and> isFinite (qz q) \<and> isFinite (qw q))
         \<or> \<not> normalizable [qx q, qy q, qz q, qw q])"

section \<open>SceneExtension\<close>

datatype Pose = Pose (position: Vector3) (orientation: Quaternion)

record BaseSettings =
  visible :: bool
  frameLocked :: "bool option"

record BaseUserData =
  settingsPath :: "string list"
  settings :: BaseSettings
  messageTime :: int
  frameId :: string
  pose :: Pose

text \<open>
  A renderable is a \<^verbatim>\<open>THREE.Object3D\<close> with user data: of the object, its
  \<^verbatim>\<open>visible\<close> flag, \<^verbatim>\<open>position\<close> and \<^verbatim>\<open>quaternion\<close>.
\<close>

record Renderable =
  userData :: BaseUserData
  obj_visible :: bool
  obj_position :: Vector3
  obj_quaternion :: Quaternion

text \<open>
  Modelled from the spec: \<^verbatim>\<open>LayerErrors\<close> (\<^verbatim>\<open>renderer.settings.errors\<close>) is not
  among the sources. The spec describes the diagnostics as a keyed error state (present or
  absent), keyed by an opaque path plus a fixed error code: a partial map from path and
  error code to the message. \<open>add\<close> stores a message, \<open>remove\<close> deletes the entry of
  one error code, \<open>clearPath\<close> deletes every entry at the path.
\<close>

type_synonym LayerErrors = "string list \<times> string \<Rightarrow> string option"

definition errors_add :: "LayerErrors \<Rightarrow> string list \<Rightarrow> string \<Rightarrow> string \<Rightarrow> LayerErrors" where
  "errors_add e path errorId msg = e((path, errorId) \<mapsto> msg)"

definition errors_remove :: "LayerErrors \<Rightarrow> string list \<Rightarrow> string \<Rightarrow> LayerErrors" where
  "errors_remove e path errorId = e((path, errorId) := None)"

definition errors_clearPath :: "LayerErrors \<Rightarrow> string list \<Rightarrow> LayerErrors" where
  "errors_clearPath e path = (\<lambda>k. if fst k = path then None else e k)"

text \<open>Modelled from the spec: the fixed error code for a missing transform.\<close>

definition MISSING_TRANSFORM :: string where
  "MISSING_TRANSFORM = ''MISSING_TRANSFORM''"

text \<open>
  Modelled from the spec: \<^verbatim>\<open>missingTransformMessage\<close> is not among the sources. The
  diagnostic names the two frames, the renderable's and the render frame, and the attempted
  chain, which runs over the fixed frame.
\<close>

definition missingTransformMessage :: "string \<Rightarrow> string \<Rightarrow> string \<Rightarrow> string" where
  "missingTransformMessage renderFrame fixedFrame srcFrame =
     ''Missing transform from frame <'' @ srcFrame @ ''> to frame <'' @ renderFrame
       @ ''> via frame <'' @ fixedFrame @ ''>''"

text \<open>A message names a frame when the frame's identifier occurs in it.\<close>

fun mentions :: "string \<Rightarrow> string \<Rightarrow> bool" where
  "mentions [] s = (s = [])"
| "mentions (c # cs) s = (take (length s) (c # cs) = s \<or> mentions cs s)"

text \<open>
  \<^verbatim>\<open>updatePose\<close> is not among the sources: it is a parameter of \<^verbatim>\<open>startFrame\<close>,
  a function from its seven arguments to its boolean result and the renderable as it leaves
  it.
\<close>

type_synonym UpdatePose =
  "Renderable \<Rightarrow> TransformTree \<Rightarrow> string \<Rightarrow> string \<Rightarrow> string \<Rightarrow> int \<Rightarrow> int \<Rightarrow> bool \<times> Renderable"

text \<open>
  The body of the loop of \<^verbatim>\<open>SceneExtension.startFrame\<close> for one renderable. It
  returns the renderable and the layer errors of the renderer's settings as it leaves them.
\<close>

definition startFrameRenderable :: "UpdatePose \<Rightarrow> TransformTree \<Rightarrow> int \<Rightarrow> string \<Rightarrow> string
    \<Rightarrow> LayerErrors \<Rightarrow> Renderable \<Rightarrow> Renderable \<times> LayerErrors" where
  "startFrameRenderable updatePose tree currentTime renderFrame fixedFrame errors renderable =
     (let path = settingsPath (userData renderable);
          r1 = renderable\<lparr>obj_visible := visible (settings (userData renderable))\<rparr>
      in if \<not> obj_visible r1 then (r1, errors_clearPath errors path)
         else
           (let locked = orElse (frameLocked (settings (userData r1))) True;
                srcTime = (if locked then currentTime else messageTime (userData r1));
                srcFrame = frameId (userData r1);
                res = updatePose r1 tree renderFrame fixedFrame srcFrame currentTime srcTime
            in if \<not> fst res then
                 (snd res,
                  errors_add errors path MISSING_TRANSFORM
                    (missingTransformMessage renderFrame fixedFrame srcFrame))
               else (snd res, errors_remove errors path MISSING_TRANSFORM)))"

text \<open>
  \<^verbatim>\<open>startFrame\<close>: the loop over \<^verbatim>\<open>this.renderables.values()\<close>, a map from string
  keys to renderables, in insertion order. It returns the renderables and the layer errors
  as the loop leaves them.
\<close>

fun startFrame :: "UpdatePose \<Rightarrow> TransformTree \<Rightarrow> int \<Rightarrow> string \<Rightarrow> string \<Rightarrow> LayerErrors
    \<Rightarrow> (string \<times> Renderable) list \<Rightarrow> (string \<times> Renderable) list \<times> LayerErrors" where
  "startFrame updatePose tree currentTime renderFrame fixedFrame errors [] = ([], errors)"
| "startFrame updatePose tree currentTime renderFrame fixedFrame errors (kr # rest) =
     (let step = startFrameRenderable updatePose tree currentTime renderFrame fixedFrame errors
                   (snd kr);
          later = startFrame updatePose tree currentTime renderFrame fixedFrame (snd step) rest
      in ((fst kr, fst step) # fst later, snd later))"

text \<open>
  Modelled from the spec: the pose resolution pipeline that \<^verbatim>\<open>updatePose\<close> stands for.
  Resolve the render frame against the fixed frame at the current time, resolve the
  renderable's frame against the fixed frame at the source time, and compose the inverse of
  the first with the second; on success apply translation and rotation to the renderable,
  on failure leave its last pose untouched. The tree's \<open>resolvePose\<close> and the
  composition and inversion of poses compute with floating-point numbers and are
  parameters.
\<close>

definition updatePoseSpec :: "(TransformTree \<Rightarrow> string \<Rightarrow> string \<Rightarrow> int \<Rightarrow> Pose option)
    \<Rightarrow> (Pose \<Rightarrow> Pose \<Rightarrow> Pose) \<Rightarrow> (Pose \<Rightarrow> Pose) \<Rightarrow> UpdatePose" where
  "updatePoseSpec resolvePose compose invert renderable tree renderFrame fixedFrame srcFrame
       dstTime srcTime =
     (case resolvePose tree renderFrame fixedFrame dstTime of
        None \<Rightarrow> (False, renderable)
      | Some a \<Rightarrow>
          (case resolvePose tree srcFrame fixedFrame srcTime of
             None \<Rightarrow> (False, renderable)
           | Some b \<Rightarrow>
               (let p = compose (invert a) b
                in (True, renderable\<lparr>obj_position := position p,
                                      obj_quaternion := orientation p\<rparr>))))"

section \<open>Example data\<close>

definition identityTransform :: Transform where
  "identityTransform = Transform [Finite 0, Finite 0, Finite 0] [Finite 0, Finite 0, Finite 0, Finite 1]"

text \<open>A tree with the chain camera, odom, map: two of the canonical names are present.\<close>

definition robotTree :: TransformTree where
  "robotTree =
     \<lparr>frames =
        [\<lparr>cf_id = ''map'', cf_edges = []\<rparr>,
         \<lparr>cf_id = ''odom'', cf_edges = [(0, ''map'', identityTransform)]\<rparr>,
         \<lparr>cf_id = ''camera'', cf_edges = [(0, ''odom'', identityTransform)]\<rparr>],
      maxStorageTime = TRANSFORM_STORAGE_TIME_NS,
      reported = []\<rparr>"

text \<open>
  A forest without canonical names: root \<open>turtle\<close> with two frames, root \<open>world\<close> with
  three.
\<close>

definition forestTree :: TransformTree where
  "forestTree =
     \<lparr>frames =
        [\<lparr>cf_id = ''turtle'', cf_edges = []\<rparr>,
         \<lparr>cf_id = ''tip'', cf_edges = [(0, ''turtle'', identityTransform)]\<rparr>,
         \<lparr>cf_id = ''world'', cf_edges = []\<rparr>,
         \<lparr>cf_id = ''arm'', cf_edges = [(0, ''world'', identityTransform)]\<rparr>,
         \<lparr>cf_id = ''hand'', cf_edges = [(0, ''arm'', identityTransform)]\<rparr>],
      maxStorageTime = TRANSFORM_STORAGE_TIME_NS,
      reported = []\<rparr>"

text \<open>The same forest without \<open>hand\<close>: both roots have two frames.\<close>

definition tiedTree :: TransformTree where
  "tiedTree =
     \<lparr>frames =
        [\<lparr>cf_id = ''turtle'', cf_edges = []\<rparr>,
         \<lparr>cf_id = ''tip'', cf_edges = [(0, ''turtle'', identityTransform)]\<rparr>,
         \<lparr>cf_id = ''world'', cf_edges = []\<rparr>,
         \<lparr>cf_id = ''arm'', cf_edges = [(0, ''world'', identityTransform)]\<rparr>],
      maxStorageTime = TRANSFORM_STORAGE_TIME_NS,
      reported = []\<rparr>"

text \<open>A renderer whose render frame names no frame of its tree.\<close>

definition lostRenderer :: Renderer where
  "lostRenderer =
     \<lparr>transformTree = robotTree,
      coordinateFrameList = frameList robotTree,
      fixedFrameId = Some ''map'',
      renderFrameId = Some ''lidar'',
      emitted = [],
      logged = []\<rparr>"

definition robotRenderer :: Renderer where
  "robotRenderer =
     \<lparr>transformTree = robotTree,
      coordinateFrameList = frameList robotTree,
      fixedFrameId = None,
      renderFrameId = None,
      emitted = [],
      logged = []\<rparr>"

text \<open>
  A raw transform message for the edge from \<open>odom\<close> to \<open>map\<close> one second in, whose
  rotation object is present but empty.
\<close>

definition emptyRotationMessage :: RawTransformStamped where
  "emptyRotationMessage =
     RawTransformStamped
       (Some (RawHeader (Some ''map'') (Some (PartialTime (Some 1) (Some 0))) None))
       (Some ''odom'')
       (Some (RawTransform None (Some (PartialQuaternion None None None None))))"

text \<open>A well-formed message for a frame the tree does not know yet.\<close>

definition lidarMessage :: TransformStamped where
  "lidarMessage =
     TransformStamped (Header ''odom'' (Time 2 0) None) ''lidar''
       (RosTransform (Vector3 (Finite 1) (Finite 0) (Finite 0))
          (Quaternion (Finite 0) (Finite 0) (Finite 0) (Finite 1)))"

text \<open>A message for the same edge whose translation holds a value that is not a number.\<close>

definition nanMessage :: TransformStamped where
  "nanMessage =
     TransformStamped (Header ''map'' (Time 4 0) None) ''odom''
       (RosTransform (Vector3 NaN (Finite 0) (Finite 0))
          (Quaternion (Finite 0) (Finite 0) (Finite 0) (Finite 1)))"

text \<open>A well-formed message for an edge the tree already has, at a later time.\<close>

definition odomMessage :: TransformStamped where
  "odomMessage =
     TransformStamped (Header ''map'' (Time 3 0) None) ''odom''
       (RosTransform (Vector3 (Finite 0) (Finite 0) (Finite 0))
          (Quaternion (Finite 0) (Finite 0) (Finite 0) (Finite 1)))"

text \<open>
  A resolution that knows the frames of the tree only: it succeeds when both frames are in
  the tree, with no rotation and with the time it was asked for as the first coordinate of
  the position.
\<close>

definition identityPose :: Pose where
  "identityPose =
     Pose (Vector3 (Finite 0) (Finite 0) (Finite 0))
       (Quaternion (Finite 0) (Finite 0) (Finite 0) (Finite 1))"

definition timedResolve :: "TransformTree \<Rightarrow> string \<Rightarrow> string \<Rightarrow> int \<Rightarrow> Pose option" where
  "timedResolve t a b time =
     (if hasFrame t a \<and> hasFrame t b
      then Some (Pose (Vector3 (Finite (real_of_int time)) (Finite 0) (Finite 0))
                   (Quaternion (Finite 0) (Finite 0) (Finite 0) (Finite 1)))
      else None)"

text \<open>With it, a pose pipeline that takes the pose of the renderable's frame as it is.\<close>

definition examplePose :: UpdatePose where
  "examplePose = updatePoseSpec timedResolve (\<lambda>a b. b) (\<lambda>a. a)"

definition exampleRenderable :: "string \<Rightarrow> bool \<Rightarrow> bool option \<Rightarrow> Renderable" where
  "exampleRenderable frameName vis locked =
     \<lparr>userData =
        \<lparr>settingsPath = [''topics'', frameName],
         settings = \<lparr>visible = vis, frameLocked = locked\<rparr>,
         messageTime = 5,
         frameId = frameName,
         pose = identityPose\<rparr>,
      obj_visible = True,
      obj_position = Vector3 (Finite 7) (Finite 7) (Finite 7),
      obj_quaternion = Quaternion (Finite 0) (Finite 0) (Finite 0) (Finite 1)\<rparr>"

text \<open>Layer errors with one earlier diagnostic, for the renderable of \<open>camera\<close>.\<close>

definition staleErrors :: LayerErrors where
  "staleErrors = errors_add (\<lambda>k. None) [''topics'', ''camera''] MISSING_TRANSFORM ''stale''"

section \<open>Auxiliary notions for the proofs\<close>

text \<open>The elements of a list in the order of their first occurrence.\<close>

definition firsts :: "'a list \<Rightarrow> 'a list" where
  "firsts xs = rev (remdups (rev xs))"

section \<open>Lists, maps and sorting\<close>

lemma frame_Some_id: "frame t k = Some f \<Longrightarrow> cf_id f = k"
  by (auto simp: frame_def find_Some_iff)

lemma preferredFrame_find: "preferredFrame t ks = find (hasFrame t) ks"
  by (induction ks) (auto simp: hasFrame_def dest: frame_Some_id split: option.splits)

lemma firsts_snoc: "firsts (xs @ [x]) = (if x \<in> set xs then firsts xs else firsts xs @ [x])"
  by (simp add: firsts_def)

lemma set_firsts: "set (firsts xs) = set xs"
  by (simp add: firsts_def)

lemma distinct_firsts: "distinct (firsts xs)"
  by (simp add: firsts_def)

lemma find_snoc:
  "find P (xs @ [x]) = (case find P xs of Some y \<Rightarrow> Some y | None \<Rightarrow> if P x then Some x else None)"
  by (induction xs) auto

lemma find_firsts: "find P (firsts xs) = find P xs"
proof (induction xs rule: rev_induct)
  case Nil
  show ?case by (simp add: firsts_def)
next
  case (snoc x xs)
  show ?case
  proof (cases "x \<in> set xs")
    case True
    then have "find P xs = None \<Longrightarrow> \<not> P x"
      by (auto simp: find_None_iff)
    with True snoc show ?thesis
      by (auto simp: firsts_snoc find_snoc split: option.splits)
  next
    case False
    with snoc show ?thesis
      by (simp add: firsts_snoc find_snoc)
  qed
qed

lemma map_of_mapSet: "map_of (mapSet k v m) = (map_of m)(k \<mapsto> v)"
  by (induction m) (auto simp: fun_eq_iff)

lemma mapSet_map:
  "distinct ks \<Longrightarrow>
   mapSet r v (map (\<lambda>k. (k, g k)) ks) =
     (if r \<in> set ks then map (\<lambda>k. (k, if k = r then v else g k)) ks
      else map (\<lambda>k. (k, g k)) ks @ [(r, v)])"
  by (induction ks) auto

lemma map_of_tabulate:
  "map_of (map (\<lambda>k. (k, g k)) ks) r = (if r \<in> set ks then Some (g r) else None)"
  by (induction ks) auto

lemma count_list_snoc: "count_list (xs @ [x]) k = count_list xs k + (if k = x then 1 else 0)"
  by (induction xs) auto

lemma count_list_0: "x \<notin> set xs \<Longrightarrow> count_list xs x = 0"
  by (induction xs) auto

lemma rootsToCounts_fold:
  "foldl (countRoot rootOf t) [] fs =
     map (\<lambda>r. (r, count_list (map (\<lambda>f. cf_id (rootOf t f)) fs) r))
       (firsts (map (\<lambda>f. cf_id (rootOf t f)) fs))"
proof (induction fs rule: rev_induct)
  case Nil
  show ?case by (simp add: firsts_def)
next
  case (snoc f fs)
  let ?rs = "map (\<lambda>f. cf_id (rootOf t f)) fs"
  let ?r = "cf_id (rootOf t f)"
  let ?M = "map (\<lambda>r. (r, count_list ?rs r)) (firsts ?rs)"
  have step: "foldl (countRoot rootOf t) [] (fs @ [f]) = countRoot rootOf t ?M f"
    by (simp only: foldl_append foldl.simps snoc)
  have rs_snoc: "map (\<lambda>f. cf_id (rootOf t f)) (fs @ [f]) = ?rs @ [?r]" by simp
  show ?case
  proof (cases "?r \<in> set ?rs")
    case True
    then have in_firsts: "?r \<in> set (firsts ?rs)" by (simp only: set_firsts)
    have "countRoot rootOf t ?M f = map (\<lambda>k. (k, if k = ?r then count_list ?rs ?r + 1 else count_list ?rs k)) (firsts ?rs)"
      using in_firsts
      by (simp add: countRoot_def Let_def map_of_tabulate mapSet_map distinct_firsts)
    also have "\<dots> = map (\<lambda>k. (k, count_list (?rs @ [?r]) k)) (firsts (?rs @ [?r]))"
      using True by (simp add: firsts_snoc count_list_snoc)
    finally show ?thesis by (simp only: step rs_snoc)
  next
    case False
    then have notin_firsts: "?r \<notin> set (firsts ?rs)" by (simp add: set_firsts)
    have ne: "\<And>k. k \<in> set (firsts ?rs) \<Longrightarrow> k \<noteq> ?r" using notin_firsts by auto
    have "countRoot rootOf t ?M f = ?M @ [(?r, 1)]"
      using notin_firsts
      by (simp add: countRoot_def Let_def map_of_tabulate mapSet_map distinct_firsts)
    also have "\<dots> = map (\<lambda>k. (k, count_list (?rs @ [?r]) k)) (firsts (?rs @ [?r]))"
    proof -
      have "map (\<lambda>k. (k, count_list (?rs @ [?r]) k)) (firsts ?rs) = ?M"
        by (rule map_cong[OF refl]) (use ne in \<open>auto simp add: count_list_snoc\<close>)
      moreover have "count_list (?rs @ [?r]) ?r = 1"
        using False by (simp add: count_list_snoc count_list_0)
      moreover have "firsts (?rs @ [?r]) = firsts ?rs @ [?r]"
        using False by (simp only: firsts_snoc if_False)
      ultimately show ?thesis by simp
    qed
    finally show ?thesis by (simp only: step rs_snoc)
  qed
qed

lemma hd_insort_key:
  "hd (insort_key f x ys) = (if ys = [] \<or> f x \<le> f (hd ys) then x else hd ys)"
  by (cases ys) auto

lemma sort_key_Nil_iff: "sort_key f xs = [] \<longleftrightarrow> xs = []"
  by (metis length_sort list.size(3) length_0_conv)

lemma hd_sort_key_min:
  assumes "xs \<noteq> []"
  shows "hd (sort_key f xs) \<in> set xs \<and> (\<forall>y \<in> set xs. f (hd (sort_key f xs)) \<le> f y)"
proof -
  obtain h tl where ys: "sort_key f xs = h # tl"
    using assms by (cases "sort_key f xs") (auto simp: sort_key_Nil_iff)
  have "sorted (map f (h # tl))" using sorted_sort_key[of f xs] by (simp only: ys)
  then have le: "\<forall>y \<in> set tl. f h \<le> f y" by simp
  have set_eq: "set xs = insert h (set tl)" using set_sort[of f xs] by (simp add: ys)
  show ?thesis using le by (simp add: ys set_eq)
qed

lemma find_hd_sort_key:
  "xs \<noteq> [] \<Longrightarrow> find (\<lambda>x. \<forall>y \<in> set xs. f x \<le> f y) xs = Some (hd (sort_key f xs))"
proof (induction xs)
  case Nil
  then show ?case by simp
next
  case (Cons x xs)
  show ?case
  proof (cases "xs = []")
    case True
    then show ?thesis by simp
  next
    case False
    note IH = Cons.IH[OF False]
    let ?h = "hd (sort_key f xs)"
    let ?P = "\<lambda>z. \<forall>y \<in> set (x # xs). f z \<le> f y"
    have hmin: "?h \<in> set xs" "\<forall>y \<in> set xs. f ?h \<le> f y"
      using hd_sort_key_min[OF False, of f] by auto
    have nonempty: "sort_key f xs \<noteq> []" using False by (simp add: sort_key_Nil_iff)
    have unfold: "find ?P (x # xs) = (if ?P x then Some x else find ?P xs)"
      by (rule find.simps(2))
    show ?thesis
    proof (cases "f x \<le> f ?h")
      case True
      then have px: "?P x" using hmin by auto
      have "hd (sort_key f (x # xs)) = x"
        using True nonempty by (simp add: hd_insort_key)
      then show ?thesis by (simp only: unfold if_P[OF px])
    next
      case notle: False
      then have notmin: "\<not> ?P x" using hmin by auto
      have hd_eq: "hd (sort_key f (x # xs)) = ?h"
        using notle nonempty by (simp add: hd_insort_key)
      have "find ?P xs = find (\<lambda>z. \<forall>y \<in> set xs. f z \<le> f y) xs"
      proof (rule find_cong[OF refl])
        fix z assume "z \<in> set xs"
        have hx: "f ?h \<le> f x" using notle by simp
        show "?P z = (\<forall>y \<in> set xs. f z \<le> f y)"
        proof
          assume all: "\<forall>y \<in> set xs. f z \<le> f y"
          then have "f z \<le> f ?h" using hmin by auto
          with hx have "f z \<le> f x" by simp
          with all show "?P z" by simp
        qed simp
      qed
      then have "find ?P (x # xs) = Some ?h"
        using IH by (simp only: unfold if_not_P[OF notmin])
      then show ?thesis by (simp only: hd_eq)
    qed
  qed
qed

lemma find_map_tab:
  "find P (map h ks) = map_option h (find (\<lambda>k. P (h k)) ks)"
  by (induction ks) auto

lemma count_list_filter:
  "count_list (map g fs) r = length (filter (\<lambda>f. g f = r) fs)"
  by (induction fs) auto


lemma framesWithRoot_count:
  "framesWithRoot rootOf t r = count_list (map (\<lambda>f. cf_id (rootOf t f)) (frames t)) r"
  by (simp add: framesWithRoot_def count_list_filter)

lemma rootWithMostFrames_first_max:
  "rootWithMostFrames rootOf t =
     map_option (\<lambda>f. cf_id (rootOf t f))
       (find (\<lambda>f. \<forall>g \<in> set (frames t).
                 framesWithRoot rootOf t (cf_id (rootOf t g))
                   \<le> framesWithRoot rootOf t (cf_id (rootOf t f)))
          (frames t))"
proof (cases "frames t = []")
  case True
  then show ?thesis by (simp add: rootWithMostFrames_def)
next
  case False
  let ?rid = "\<lambda>f. cf_id (rootOf t f)"
  let ?rs = "map ?rid (frames t)"
  let ?c = "count_list ?rs"
  let ?M = "map (\<lambda>r. (r, ?c r)) (firsts ?rs)"
  let ?key = "\<lambda>e :: string \<times> nat. - int (snd e)"
  let ?Q = "\<lambda>r. \<forall>r' \<in> set ?rs. ?c r' \<le> ?c r"
  have fold: "foldl (countRoot rootOf t) [] (frames t) = ?M"
    by (rule rootsToCounts_fold)
  have "set (firsts ?rs) \<noteq> {}" using False by (simp add: set_firsts)
  then have M_ne: "?M \<noteq> []" by auto
  then have sorted_ne: "sort_key ?key ?M \<noteq> []" by (simp only: sort_key_Nil_iff not_False_eq_True)
  have res: "rootWithMostFrames rootOf t = Some (fst (hd (sort_key ?key ?M)))"
    using sorted_ne by (cases "sort_key ?key ?M") (simp_all add: rootWithMostFrames_def fold)
  have pred: "(\<forall>e' \<in> set ?M. ?key (r, ?c r) \<le> ?key e') = ?Q r" for r
    by (auto simp: set_firsts)
  have "Some (hd (sort_key ?key ?M)) = find (\<lambda>e. \<forall>e' \<in> set ?M. ?key e \<le> ?key e') ?M"
    using find_hd_sort_key[OF M_ne, of ?key] by simp
  also have "\<dots> = map_option (\<lambda>r. (r, ?c r)) (find (\<lambda>r. \<forall>e' \<in> set ?M. ?key (r, ?c r) \<le> ?key e') (firsts ?rs))"
    by (rule find_map_tab)
  also have "\<dots> = map_option (\<lambda>r. (r, ?c r)) (find ?Q (firsts ?rs))"
    by (simp only: pred)
  also have "\<dots> = map_option (\<lambda>r. (r, ?c r)) (find ?Q ?rs)"
    by (simp only: find_firsts)
  also have "\<dots> = map_option (\<lambda>r. (r, ?c r)) (map_option ?rid (find (\<lambda>f. ?Q (?rid f)) (frames t)))"
    by (simp only: find_map_tab)
  finally have hd_eq: "Some (hd (sort_key ?key ?M)) =
      map_option (\<lambda>r. (r, ?c r)) (map_option ?rid (find (\<lambda>f. ?Q (?rid f)) (frames t)))" .
  have "Some (fst (hd (sort_key ?key ?M))) = map_option fst (Some (hd (sort_key ?key ?M)))"
    by simp
  also have "\<dots> = map_option ?rid (find (\<lambda>f. ?Q (?rid f)) (frames t))"
    by (simp only: hd_eq) (simp add: option.map_comp comp_def option.map_ident)
  finally have "rootWithMostFrames rootOf t = map_option ?rid (find (\<lambda>f. ?Q (?rid f)) (frames t))"
    by (simp only: res)
  moreover have "?Q (?rid f) = (\<forall>g \<in> set (frames t).
      framesWithRoot rootOf t (?rid g) \<le> framesWithRoot rootOf t (?rid f))" for f
    by (simp add: framesWithRoot_count)
  ultimately show ?thesis by simp
qed

lemma rootWithMostFrames_None_iff:
  "rootWithMostFrames rootOf t = None \<longleftrightarrow> frames t = []"
proof
  assume none: "rootWithMostFrames rootOf t = None"
  show "frames t = []"
  proof (rule ccontr)
    assume ne: "frames t \<noteq> []"
    let ?key = "\<lambda>e :: string \<times> nat. - int (snd e)"
    have "foldl (countRoot rootOf t) [] (frames t) \<noteq> []"
      using ne by (simp add: rootsToCounts_fold) (metis set_firsts set_empty map_is_Nil_conv)
    then have "sort_key ?key (foldl (countRoot rootOf t) [] (frames t)) \<noteq> []"
      by (simp only: sort_key_Nil_iff not_False_eq_True)
    then show False using none
      by (cases "sort_key ?key (foldl (countRoot rootOf t) [] (frames t))")
         (simp_all add: rootWithMostFrames_def)
  qed
next
  assume "frames t = []"
  then show "rootWithMostFrames rootOf t = None" by (simp add: rootWithMostFrames_def)
qed

lemma preferredFrame_None_iff:
  "preferredFrame t ks = None \<longleftrightarrow> (\<forall>k \<in> set ks. \<not> hasFrame t k)"
  by (auto simp add: preferredFrame_find find_None_iff)

section \<open>Evaluation of the examples\<close>

lemma robotTree_frames:
  "frame robotTree ''base_link'' = None"
  "frame robotTree ''odom'' = Some \<lparr>cf_id = ''odom'', cf_edges = [(0, ''map'', identityTransform)]\<rparr>"
  "frame robotTree ''map'' = Some \<lparr>cf_id = ''map'', cf_edges = []\<rparr>"
  "frame robotTree ''lidar'' = None"
  by (simp_all add: frame_def robotTree_def)

lemma robotTree_default: "defaultFrameId rootOf robotTree = Some ''odom''"
  by (simp add: defaultFrameId_def DEFAULT_FRAME_IDS_def robotTree_frames)

lemma forestTree_no_preferred: "\<forall>k \<in> set DEFAULT_FRAME_IDS. \<not> hasFrame forestTree k"
  by (simp add: DEFAULT_FRAME_IDS_def hasFrame_def frame_def forestTree_def)

lemma tiedTree_no_preferred: "\<forall>k \<in> set DEFAULT_FRAME_IDS. \<not> hasFrame tiedTree k"
  by (simp add: DEFAULT_FRAME_IDS_def hasFrame_def frame_def tiedTree_def)

lemma forestTree_roots:
  "map (\<lambda>f. cf_id (root forestTree f)) (frames forestTree)
     = [''turtle'', ''turtle'', ''world'', ''world'', ''world'']"
  by (simp add: root_def forestTree_def latestParent_def frame_def)

lemma tiedTree_roots:
  "map (\<lambda>f. cf_id (root tiedTree f)) (frames tiedTree)
     = [''turtle'', ''turtle'', ''world'', ''world'']"
  by (simp add: root_def tiedTree_def latestParent_def frame_def)

section \<open>Default frame selection\<close>

text \<open>
  C3. Whenever the tree has at least one of the canonical frame names,
  \<^verbatim>\<open>defaultFrameId\<close> returns the first name of the priority list
  \<open>base_link\<close>, \<open>odom\<close>, \<open>map\<close>, \<open>earth\<close> that is present in the tree.
  The root-counting fallback is not consulted: the result is the same for every
  implementation \<open>rootOf\<close> of \<^verbatim>\<open>frame.root()\<close>.
\<close>

theorem defaultFrameId_preferred:
  assumes "\<exists>k \<in> set DEFAULT_FRAME_IDS. hasFrame t k"
  shows "defaultFrameId rootOf t = find (hasFrame t) DEFAULT_FRAME_IDS
         \<and> (\<exists>k \<in> set DEFAULT_FRAME_IDS. hasFrame t k \<and> defaultFrameId rootOf t = Some k)
         \<and> defaultFrameId rootOf t = defaultFrameId rootOf' t"
proof -
  obtain k where k: "find (hasFrame t) DEFAULT_FRAME_IDS = Some k"
    using assms by (cases "find (hasFrame t) DEFAULT_FRAME_IDS") (auto simp: find_None_iff)
  then have "k \<in> set DEFAULT_FRAME_IDS" "hasFrame t k"
    by (auto simp: find_Some_iff)
  moreover have "defaultFrameId r t = Some k" for r
    by (simp add: defaultFrameId_def preferredFrame_find k)
  ultimately show ?thesis using k by auto
qed

text \<open>
  The robot tree has \<open>odom\<close> and \<open>map\<close>, not \<open>base_link\<close>: the default frame
  is \<open>odom\<close>, although \<open>map\<close> is the root of all three frames.
\<close>

theorem defaultFrameId_preferred_witness:
  "defaultFrameId root robotTree = Some ''odom'' \<and> hasFrame robotTree ''map''
   \<and> \<not> hasFrame robotTree ''base_link''"
proof -
  have present: "\<exists>k \<in> set DEFAULT_FRAME_IDS. hasFrame robotTree k"
    by (simp add: DEFAULT_FRAME_IDS_def hasFrame_def robotTree_frames)
  have "find (hasFrame robotTree) DEFAULT_FRAME_IDS = Some ''odom''"
    by (simp add: DEFAULT_FRAME_IDS_def hasFrame_def robotTree_frames)
  with defaultFrameId_preferred[OF present, of root root]
  show ?thesis by (simp add: hasFrame_def robotTree_frames)
qed

text \<open>
  C4. When the tree has none of the canonical frame names, \<^verbatim>\<open>defaultFrameId\<close>
  returns the identifier of the root of the first frame, in the tree's insertion order,
  whose root has the largest number of known frames under it: a root that maximises the
  number of frames having that root, ties broken in favour of the root seen first. The
  result is undefined exactly when the tree has no frames. (The sort of the counted roots
  is stable, as ECMAScript 2019 requires.)
\<close>

theorem defaultFrameId_fallback:
  assumes "\<forall>k \<in> set DEFAULT_FRAME_IDS. \<not> hasFrame t k"
  shows "defaultFrameId rootOf t =
           map_option (\<lambda>f. cf_id (rootOf t f))
             (find (\<lambda>f. \<forall>g \<in> set (frames t).
                       framesWithRoot rootOf t (cf_id (rootOf t g))
                         \<le> framesWithRoot rootOf t (cf_id (rootOf t f)))
                (frames t))
         \<and> (frames t \<noteq> [] \<longrightarrow>
              (\<exists>f \<in> set (frames t). defaultFrameId rootOf t = Some (cf_id (rootOf t f))
                 \<and> (\<forall>r. framesWithRoot rootOf t r \<le> framesWithRoot rootOf t (cf_id (rootOf t f)))))
         \<and> (defaultFrameId rootOf t = None \<longleftrightarrow> frames t = [])"
proof -
  let ?rid = "\<lambda>f. cf_id (rootOf t f)"
  let ?P = "\<lambda>f. \<forall>g \<in> set (frames t).
              framesWithRoot rootOf t (?rid g) \<le> framesWithRoot rootOf t (?rid f)"
  have fallback: "defaultFrameId rootOf t = rootWithMostFrames rootOf t"
    using assms by (simp add: defaultFrameId_def preferredFrame_None_iff[THEN iffD2])
  have eq: "defaultFrameId rootOf t = map_option ?rid (find ?P (frames t))"
    by (simp only: fallback rootWithMostFrames_first_max)
  have none_iff: "defaultFrameId rootOf t = None \<longleftrightarrow> frames t = []"
    by (simp only: fallback rootWithMostFrames_None_iff)
  have some: "\<exists>f \<in> set (frames t). defaultFrameId rootOf t = Some (?rid f)
      \<and> (\<forall>r. framesWithRoot rootOf t r \<le> framesWithRoot rootOf t (?rid f))"
    if ne: "frames t \<noteq> []"
  proof -
    from ne none_iff eq obtain f where f: "find ?P (frames t) = Some f"
      by (cases "find ?P (frames t)") auto
    then have fin: "f \<in> set (frames t)" and fmax: "?P f"
      by (auto simp: find_Some_iff)
    have "framesWithRoot rootOf t r \<le> framesWithRoot rootOf t (?rid f)" for r
    proof (cases "\<exists>g \<in> set (frames t). ?rid g = r")
      case True
      then show ?thesis using fmax by auto
    next
      case False
      then have "framesWithRoot rootOf t r = 0"
        by (auto simp: framesWithRoot_def filter_empty_conv)
      then show ?thesis by simp
    qed
    then show ?thesis using fin f eq by auto
  qed
  show ?thesis using eq none_iff some by blast
qed

text \<open>
  In the forest the root \<open>world\<close> has three frames and \<open>turtle\<close> two; in the tied
  forest both have two and \<open>turtle\<close>, seen first, wins.
\<close>

theorem defaultFrameId_fallback_witness:
  "defaultFrameId root forestTree = Some ''world''
   \<and> framesWithRoot root forestTree ''world'' = 3
   \<and> framesWithRoot root forestTree ''turtle'' = 2
   \<and> defaultFrameId root tiedTree = Some ''turtle''
   \<and> framesWithRoot root tiedTree ''world'' = 2
   \<and> framesWithRoot root tiedTree ''turtle'' = 2"
proof -
  have forest_counts:
    "framesWithRoot root forestTree ''world'' = 3" "framesWithRoot root forestTree ''turtle'' = 2"
    by (simp_all add: framesWithRoot_count forestTree_roots)
  have tied_counts:
    "framesWithRoot root tiedTree ''world'' = 2" "framesWithRoot root tiedTree ''turtle'' = 2"
    by (simp_all add: framesWithRoot_count tiedTree_roots)
  from defaultFrameId_fallback[OF forestTree_no_preferred, of root]
  have "defaultFrameId root forestTree =
          map_option (\<lambda>f. cf_id (root forestTree f))
            (find (\<lambda>f. \<forall>g \<in> set (frames forestTree).
                      framesWithRoot root forestTree (cf_id (root forestTree g))
                        \<le> framesWithRoot root forestTree (cf_id (root forestTree f)))
               (frames forestTree))"
    by (rule conjunct1)
  also have "\<dots> = map_option (\<lambda>r. r)
      (find (\<lambda>r. \<forall>r' \<in> set (map (\<lambda>f. cf_id (root forestTree f)) (frames forestTree)).
                  framesWithRoot root forestTree r' \<le> framesWithRoot root forestTree r)
         (map (\<lambda>f. cf_id (root forestTree f)) (frames forestTree)))"
    by (simp add: find_map_tab option.map_comp comp_def)
  also have "\<dots> = Some ''world''"
    by (simp only: forestTree_roots) (simp add: forest_counts)
  finally have forest: "defaultFrameId root forestTree = Some ''world''" .
  from defaultFrameId_fallback[OF tiedTree_no_preferred, of root]
  have "defaultFrameId root tiedTree =
          map_option (\<lambda>f. cf_id (root tiedTree f))
            (find (\<lambda>f. \<forall>g \<in> set (frames tiedTree).
                      framesWithRoot root tiedTree (cf_id (root tiedTree g))
                        \<le> framesWithRoot root tiedTree (cf_id (root tiedTree f)))
               (frames tiedTree))"
    by (rule conjunct1)
  also have "\<dots> = map_option (\<lambda>r. r)
      (find (\<lambda>r. \<forall>r' \<in> set (map (\<lambda>f. cf_id (root tiedTree f)) (frames tiedTree)).
                  framesWithRoot root tiedTree r' \<le> framesWithRoot root tiedTree r)
         (map (\<lambda>f. cf_id (root tiedTree f)) (frames tiedTree)))"
    by (simp add: find_map_tab option.map_comp comp_def)
  also have "\<dots> = Some ''turtle''"
    by (simp only: tiedTree_roots) (simp add: tied_counts)
  finally have tied: "defaultFrameId root tiedTree = Some ''turtle''" .
  show ?thesis using forest tied forest_counts tied_counts by simp
qed

section \<open>Frame update\<close>

lemma defaultFrameId_nonempty: "frames t \<noteq> [] \<Longrightarrow> defaultFrameId rootOf t \<noteq> None"
proof (cases "preferredFrame t DEFAULT_FRAME_IDS")
  case None
  assume "frames t \<noteq> []"
  then have "rootWithMostFrames rootOf t \<noteq> None"
    by (simp only: rootWithMostFrames_None_iff not_False_eq_True)
  then show ?thesis by (simp add: defaultFrameId_def None)
next
  case (Some k)
  then show ?thesis by (simp add: defaultFrameId_def)
qed

lemma updateFixedFrame_renderFrameId:
  "renderFrameId (updateFixedFrame rootOf st rf) = renderFrameId st"
  by (simp add: updateFixedFrame_def Let_def split: option.splits)

lemma updateFixedFrame_unknown:
  "\<not> hasFrame (transformTree st) rf \<Longrightarrow> fixedFrameId (updateFixedFrame rootOf st rf) = None"
  by (simp add: updateFixedFrame_def hasFrame_def)

text \<open>
  The render frame \<open>lidar\<close> names no frame of the tree, and the selection policy would
  choose \<open>odom\<close>. A frame update leaves the render frame as it is and clears the fixed
  frame; so does the next one. The claim C5, that an invalid render frame makes the next
  frame update choose a new render frame, does not hold.
\<close>

theorem updateFrames_keeps_unknown_render_frame:
  "\<not> hasFrame (transformTree lostRenderer) ''lidar''
   \<and> renderFrameId lostRenderer = Some ''lidar''
   \<and> defaultFrameId root (transformTree lostRenderer) = Some ''odom''
   \<and> renderFrameId (updateFrames root lostRenderer) = Some ''lidar''
   \<and> fixedFrameId (updateFrames root lostRenderer) = None
   \<and> renderFrameId (updateFrames root (updateFrames root lostRenderer)) = Some ''lidar''"
proof -
  have tree: "transformTree lostRenderer = robotTree" and rf: "renderFrameId lostRenderer = Some ''lidar''"
    by (simp_all add: lostRenderer_def)
  have unknown: "\<not> hasFrame (transformTree lostRenderer) ''lidar''"
    by (simp add: tree hasFrame_def robotTree_frames)
  have once: "updateFrames root lostRenderer = lostRenderer\<lparr>fixedFrameId := None\<rparr>"
    by (simp add: updateFrames_def updateFixedFrame_def rf tree robotTree_frames)
  have twice: "updateFrames root (lostRenderer\<lparr>fixedFrameId := None\<rparr>) = lostRenderer\<lparr>fixedFrameId := None\<rparr>"
    by (simp add: updateFrames_def updateFixedFrame_def rf tree robotTree_frames)
  show ?thesis
    using unknown by (simp add: once twice rf tree robotTree_default)
qed

text \<open>
  C5, as amended. When no render frame is set, a frame update evaluates the default-frame
  selection policy and adopts its result, which is a frame whenever the tree has at least
  one frame; so a render frame is selected once the first data has arrived. A render frame
  that is set is kept by the frame update, also when it names no frame of the tree: then
  the fixed frame is cleared and the selection policy is not evaluated again. The frame
  update never changes the tree.
\<close>

theorem updateFrames_render_frame:
  "(renderFrameId st = None \<longrightarrow>
      renderFrameId (updateFrames rootOf st) = defaultFrameId rootOf (transformTree st))
   \<and> (renderFrameId st = None \<and> frames (transformTree st) \<noteq> [] \<longrightarrow>
      renderFrameId (updateFrames rootOf st) \<noteq> None)
   \<and> (\<forall>rf. renderFrameId st = Some rf \<longrightarrow>
        renderFrameId (updateFrames rootOf st) = Some rf
        \<and> (\<not> hasFrame (transformTree st) rf \<longrightarrow> fixedFrameId (updateFrames rootOf st) = None))
   \<and> transformTree (updateFrames rootOf st) = transformTree st"
proof -
  have sel: "renderFrameId st = None \<Longrightarrow>
      renderFrameId (updateFrames rootOf st) = defaultFrameId rootOf (transformTree st)"
    by (simp add: updateFrames_def updateFixedFrame_renderFrameId split: option.splits)
  have keep: "renderFrameId st = Some rf \<Longrightarrow> renderFrameId (updateFrames rootOf st) = Some rf" for rf
    by (simp add: updateFrames_def updateFixedFrame_renderFrameId)
  have clear: "renderFrameId st = Some rf \<Longrightarrow> \<not> hasFrame (transformTree st) rf \<Longrightarrow>
      fixedFrameId (updateFrames rootOf st) = None" for rf
    by (simp add: updateFrames_def updateFixedFrame_unknown)
  have tree: "transformTree (updateFrames rootOf st) = transformTree st"
    by (simp add: updateFrames_def updateFixedFrame_def Let_def split: option.splits)
  show ?thesis
    using sel keep clear tree defaultFrameId_nonempty[of "transformTree st" rootOf] by auto
qed

theorem updateFrames_render_frame_witness:
  "renderFrameId (updateFrames root robotRenderer) = Some ''odom''
   \<and> renderFrameId (updateFrames root lostRenderer) = Some ''lidar''
   \<and> fixedFrameId (updateFrames root lostRenderer) = None"
proof -
  have robot: "renderFrameId robotRenderer = None" "transformTree robotRenderer = robotTree"
    by (simp_all add: robotRenderer_def)
  have lost: "renderFrameId lostRenderer = Some ''lidar''" "transformTree lostRenderer = robotTree"
    by (simp_all add: lostRenderer_def)
  have unknown: "\<not> hasFrame robotTree ''lidar''"
    by (simp add: hasFrame_def robotTree_frames)
  show ?thesis
    using updateFrames_render_frame[of robotRenderer root] updateFrames_render_frame[of lostRenderer root]
      robot lost unknown robotTree_default[of root]
    by simp
qed

section \<open>Unit rotations\<close>

lemma unitRotation_examples:
  "unitRotation identityTransform = Some [0, 0, 0, 1]"
  "unitRotation (Transform p [Finite 0, Finite 0, Finite 2, Finite 0]) = Some [0, 0, 1, 0]"
  "unitRotation (Transform p [Finite 0, Finite 0, Finite 0, Finite 0]) = None"
  "unitRotation (Transform p [NaN, Finite 0, Finite 0, Finite 1]) = None"
  by (simp_all add: unitRotation_def normalizable_def normSquared_def identityTransform_def)

section \<open>Ingestion of transforms\<close>

text \<open>
  C6. \<^verbatim>\<open>addTransformMessage\<close> emits \<^verbatim>\<open>transformTreeUpdated\<close> and rebuilds the
  coordinate frame list from the tree that \<^verbatim>\<open>addTransform\<close> leaves if and only if
  the parent frame or the child frame of the transform was absent from the tree before the
  call (the transform brings in a previously absent frame), or \<^verbatim>\<open>addTransform\<close>
  reported an update; otherwise no event is emitted and the cached frame list stays as it
  was. This holds for every implementation of \<^verbatim>\<open>addTransform\<close> and
  \<^verbatim>\<open>frameList\<close>.
\<close>

theorem addTransformMessage_event:
  "let res = addTf (transformTree st) (child_frame_id tf) (frame_id (header tf))
               (toNanoSec (stamp (header tf)))
               (Transform [vx (translation (transform tf)), vy (translation (transform tf)),
                           vz (translation (transform tf))]
                          [qx (rotation (transform tf)), qy (rotation (transform tf)),
                           qz (rotation (transform tf)), qw (rotation (transform tf))]);
       changed = (\<not> hasFrame (transformTree st) (frame_id (header tf))
                  \<or> \<not> hasFrame (transformTree st) (child_frame_id tf)
                  \<or> fst res);
       out = addTransformMessage addTf frameListOf st tf
   in (emitted out = emitted st @ [transformTreeUpdated]) = changed
      \<and> (emitted out = emitted st) = (\<not> changed)
      \<and> (changed \<longrightarrow> coordinateFrameList out = frameListOf (snd res))
      \<and> (\<not> changed \<longrightarrow> coordinateFrameList out = coordinateFrameList st)"
  by (auto simp add: addTransformMessage_def Let_def)

text \<open>
  The message for \<open>lidar\<close> brings in a new child frame: one event, and the list gains
  the frame. The message for the known edge from \<open>odom\<close> to \<open>map\<close> changes neither.
\<close>

theorem addTransformMessage_event_witness:
  "emitted (addTransformMessage addTransform frameList robotRenderer lidarMessage)
     = [transformTreeUpdated]
   \<and> coordinateFrameList (addTransformMessage addTransform frameList robotRenderer lidarMessage)
     = [SelectEntry ''camera'' ''camera'', SelectEntry ''lidar'' ''lidar'',
        SelectEntry ''map'' ''map'', SelectEntry ''odom'' ''odom'']
   \<and> emitted (addTransformMessage addTransform frameList robotRenderer odomMessage) = []
   \<and> coordinateFrameList (addTransformMessage addTransform frameList robotRenderer odomMessage)
     = coordinateFrameList robotRenderer"
proof -
  have st: "transformTree robotRenderer = robotTree" "emitted robotRenderer = []"
    by (simp_all add: robotRenderer_def)
  have has: "hasFrame robotTree ''map''" "hasFrame robotTree ''odom''" "\<not> hasFrame robotTree ''lidar''"
    by (simp_all add: hasFrame_def robotTree_frames)
  have wf: "wellFormedTransform
      (Transform [Finite 1, Finite 0, Finite 0] [Finite 0, Finite 0, Finite 0, Finite 1])"
    "wellFormedTransform identityTransform"
    by (simp_all add: wellFormedTransform_def normalizable_def normSquared_def
          identityTransform_def)
  have added: "snd (addTransform robotTree ''lidar'' ''odom'' 2000000000
      (Transform [Finite 1, Finite 0, Finite 0] [Finite 0, Finite 0, Finite 0, Finite 1]))
      = \<lparr>frames =
           [\<lparr>cf_id = ''map'', cf_edges = []\<rparr>,
            \<lparr>cf_id = ''odom'', cf_edges = [(0, ''map'', identityTransform)]\<rparr>,
            \<lparr>cf_id = ''camera'', cf_edges = [(0, ''odom'', identityTransform)]\<rparr>,
            \<lparr>cf_id = ''lidar'',
             cf_edges = [(2000000000, ''odom'',
                          Transform [Finite 1, Finite 0, Finite 0]
                            [Finite 0, Finite 0, Finite 0, Finite 1])]\<rparr>],
         maxStorageTime = TRANSFORM_STORAGE_TIME_NS,
         reported = []\<rparr>"
    by (simp add: addTransform_def Let_def wf has getOrCreateFrame_def hasFrame_def frame_def
          robotTree_def)
  have lidar: "frameList (snd (addTransform robotTree ''lidar'' ''odom'' 2000000000
      (Transform [Finite 1, Finite 0, Finite 0] [Finite 0, Finite 0, Finite 0, Finite 1])))
      = [SelectEntry ''camera'' ''camera'', SelectEntry ''lidar'' ''lidar'',
         SelectEntry ''map'' ''map'', SelectEntry ''odom'' ''odom'']"
    unfolding added
    by (simp add: frameList_def root_def latestParent_def frame_def)
  have odom: "\<not> fst (addTransform robotTree ''odom'' ''map'' 3000000000 identityTransform)"
    by (simp add: addTransform_def Let_def wf has getOrCreateFrame_def hasFrame_def frame_def
          robotTree_def latestParent_def)
  show ?thesis
    using addTransformMessage_event[of addTransform robotRenderer lidarMessage frameList]
      addTransformMessage_event[of addTransform robotRenderer odomMessage frameList]
      has lidar odom
    by (simp add: Let_def st lidarMessage_def odomMessage_def toNanoSec_def identityTransform_def)
qed

lemma malformed_not_wellFormed:
  "malformed tf \<Longrightarrow>
   \<not> wellFormedTransform
        (Transform [vx (translation (transform tf)), vy (translation (transform tf)),
                    vz (translation (transform tf))]
                   [qx (rotation (transform tf)), qy (rotation (transform tf)),
                    qz (rotation (transform tf)), qw (rotation (transform tf))])"
  by (auto simp: malformed_def wellFormedTransform_def normalizable_def Let_def)

lemma addTransform_rejects:
  "\<not> wellFormedTransform x \<Longrightarrow>
   addTransform t c p time x =
     (False, t\<lparr>reported := reported t @ [MalformedTransform c p time]\<rparr>)"
  by (simp add: addTransform_def)

text \<open>
  C7. Every ingested transform record that has a non-finite number or a rotation that
  cannot be normalized (as the all-zero rotation) is rejected: the tree's
  \<open>addTransform\<close> reports no update, the rejection is logged with the tree, no edge is
  added, and the frames of the tree with their histories are what they were. The Renderer
  itself passes every record on to the tree without looking at its numbers; the rejection
  is the tree's, whose \<open>addTransform\<close> is modelled from the spec.
\<close>

theorem addTransformMessage_rejects_malformed:
  assumes "malformed tf"
  shows "let res = addTransform (transformTree st) (child_frame_id tf) (frame_id (header tf))
                     (toNanoSec (stamp (header tf)))
                     (Transform [vx (translation (transform tf)), vy (translation (transform tf)),
                                 vz (translation (transform tf))]
                                [qx (rotation (transform tf)), qy (rotation (transform tf)),
                                 qz (rotation (transform tf)), qw (rotation (transform tf))]);
             out = addTransformMessage addTransform frameListOf st tf
         in \<not> fst res
            \<and> frames (transformTree out) = frames (transformTree st)
            \<and> (\<forall>k. frame (transformTree out) k = frame (transformTree st) k)
            \<and> reported (transformTree out) =
                reported (transformTree st) @
                  [MalformedTransform (child_frame_id tf) (frame_id (header tf))
                     (toNanoSec (stamp (header tf)))]"
  using addTransform_rejects[OF malformed_not_wellFormed[OF assms]]
  by (simp add: addTransformMessage_def Let_def frame_def)

text \<open>
  A raw message whose rotation object is present but empty normalises to a record with the
  all-zero rotation, and a record may carry a translation that is not a number; both are
  malformed. Ingested into the robot tree, each leaves the history of \<open>odom\<close> as it was
  and is logged as rejected.
\<close>

theorem addTransformMessage_rejects_malformed_witness:
  "malformed (normalizeTransformStamped (Some emptyRotationMessage))
   \<and> frames (transformTree (addTransformMessage addTransform frameList robotRenderer
        (normalizeTransformStamped (Some emptyRotationMessage)))) = frames robotTree
   \<and> reported (transformTree (addTransformMessage addTransform frameList robotRenderer
        (normalizeTransformStamped (Some emptyRotationMessage))))
       = [MalformedTransform ''odom'' ''map'' 1000000000]
   \<and> malformed nanMessage
   \<and> frames (transformTree (addTransformMessage addTransform frameList robotRenderer nanMessage))
       = frames robotTree
   \<and> reported (transformTree (addTransformMessage addTransform frameList robotRenderer nanMessage))
       = [MalformedTransform ''odom'' ''map'' 4000000000]"
proof -
  have msg: "normalizeTransformStamped (Some emptyRotationMessage) =
      TransformStamped (Header ''map'' (Time 1 0) None) ''odom''
        (RosTransform (Vector3 (Finite 0) (Finite 0) (Finite 0))
           (Quaternion (Finite 0) (Finite 0) (Finite 0) (Finite 0)))"
    by (simp add: emptyRotationMessage_def)
  have st: "transformTree robotRenderer = robotTree" "reported robotTree = []"
    by (simp_all add: robotRenderer_def robotTree_def)
  have bad: "malformed (normalizeTransformStamped (Some emptyRotationMessage))"
    unfolding msg by (simp add: malformed_def normalizable_def normSquared_def)
  have bad_nan: "malformed nanMessage"
    by (simp add: malformed_def nanMessage_def)
  show ?thesis
    using addTransformMessage_rejects_malformed[OF bad, of robotRenderer frameList]
      addTransformMessage_rejects_malformed[OF bad_nan, of robotRenderer frameList]
      bad bad_nan
    unfolding msg
    by (simp add: Let_def st toNanoSec_def nanMessage_def)
qed

section \<open>Pose resolution per renderable\<close>

lemma startFrame_append:
  "startFrame upd tree ct rf ff errs (xs @ ys) =
     (let a = startFrame upd tree ct rf ff errs xs;
          b = startFrame upd tree ct rf ff (snd a) ys
      in (fst a @ fst b, snd b))"
  by (induction xs arbitrary: errs) (simp_all add: Let_def)

lemma length_startFrame: "length (fst (startFrame upd tree ct rf ff errs rs)) = length rs"
  by (induction rs arbitrary: errs) (simp_all add: Let_def)

lemma startFrameRenderable_visible:
  assumes "visible (settings (userData r))"
  shows "startFrameRenderable upd tree ct rf ff errs r =
     (let res = upd (r\<lparr>obj_visible := True\<rparr>) tree rf ff (frameId (userData r)) ct
                  (if orElse (frameLocked (settings (userData r))) True then ct
                   else messageTime (userData r))
      in (snd res,
          if fst res then errors_remove errs (settingsPath (userData r)) MISSING_TRANSFORM
          else errors_add errs (settingsPath (userData r)) MISSING_TRANSFORM
                 (missingTransformMessage rf ff (frameId (userData r)))))"
  using assms by (simp add: startFrameRenderable_def Let_def)

lemma startFrameRenderable_other_path:
  "settingsPath (userData r) \<noteq> p \<Longrightarrow>
   snd (startFrameRenderable upd tree ct rf ff errs r) (p, e) = errs (p, e)"
  by (simp add: startFrameRenderable_def Let_def errors_add_def errors_remove_def
        errors_clearPath_def)

lemma startFrame_other_paths:
  "\<forall>kr \<in> set rs. settingsPath (userData (snd kr)) \<noteq> p \<Longrightarrow>
   snd (startFrame upd tree ct rf ff errs rs) (p, e) = errs (p, e)"
  by (induction rs arbitrary: errs) (simp_all add: Let_def startFrameRenderable_other_path)

lemma startFrame_at:
  assumes vis: "visible (settings (userData r))"
  shows "fst (startFrame upd tree ct rf ff errs (pre @ (k, r) # post)) ! length pre =
           (k, snd (upd (r\<lparr>obj_visible := True\<rparr>) tree rf ff (frameId (userData r)) ct
                      (if orElse (frameLocked (settings (userData r))) True then ct
                       else messageTime (userData r))))"
    and "\<forall>kr \<in> set post. settingsPath (userData (snd kr)) \<noteq> settingsPath (userData r) \<Longrightarrow>
         snd (startFrame upd tree ct rf ff errs (pre @ (k, r) # post))
             (settingsPath (userData r), MISSING_TRANSFORM)
           = (if fst (upd (r\<lparr>obj_visible := True\<rparr>) tree rf ff (frameId (userData r)) ct
                        (if orElse (frameLocked (settings (userData r))) True then ct
                         else messageTime (userData r)))
              then None
              else Some (missingTransformMessage rf ff (frameId (userData r))))"
proof -
  let ?res = "upd (r\<lparr>obj_visible := True\<rparr>) tree rf ff (frameId (userData r)) ct
                (if orElse (frameLocked (settings (userData r))) True then ct
                 else messageTime (userData r))"
  let ?a = "startFrame upd tree ct rf ff errs pre"
  let ?step = "startFrameRenderable upd tree ct rf ff (snd ?a) r"
  let ?later = "startFrame upd tree ct rf ff (snd ?step) post"
  have run: "startFrame upd tree ct rf ff errs (pre @ (k, r) # post) =
      (fst ?a @ (k, fst ?step) # fst ?later, snd ?later)"
    by (simp add: startFrame_append Let_def)
  have step: "?step = (snd ?res,
      if fst ?res then errors_remove (snd ?a) (settingsPath (userData r)) MISSING_TRANSFORM
      else errors_add (snd ?a) (settingsPath (userData r)) MISSING_TRANSFORM
             (missingTransformMessage rf ff (frameId (userData r))))"
    using startFrameRenderable_visible[OF vis, of upd tree ct rf ff "snd ?a"]
    by (simp add: Let_def)
  show "fst (startFrame upd tree ct rf ff errs (pre @ (k, r) # post)) ! length pre = (k, snd ?res)"
    by (simp add: run step nth_append length_startFrame)
  assume "\<forall>kr \<in> set post. settingsPath (userData (snd kr)) \<noteq> settingsPath (userData r)"
  then have "snd ?later (settingsPath (userData r), MISSING_TRANSFORM)
      = snd ?step (settingsPath (userData r), MISSING_TRANSFORM)"
    by (rule startFrame_other_paths)
  then show "snd (startFrame upd tree ct rf ff errs (pre @ (k, r) # post))
             (settingsPath (userData r), MISSING_TRANSFORM)
           = (if fst ?res then None
              else Some (missingTransformMessage rf ff (frameId (userData r))))"
    by (simp add: run step errors_add_def errors_remove_def)
qed

lemma mentions_append_left: "mentions m s \<Longrightarrow> mentions (a @ m) s"
  by (induction a) auto

lemma mentions_prefix: "mentions (s @ b) s"
proof (cases "s @ b")
  case Nil
  then show ?thesis by simp
next
  case (Cons c cs)
  have "take (length s) (s @ b) = s" by simp
  then have "take (length s) (c # cs) = s" by (simp only: Cons)
  then have "mentions (c # cs) s" by simp
  then show ?thesis by (simp only: Cons)
qed

lemma missingTransformMessage_mentions:
  "mentions (missingTransformMessage renderFrame fixedFrame srcFrame) renderFrame"
  "mentions (missingTransformMessage renderFrame fixedFrame srcFrame) fixedFrame"
  "mentions (missingTransformMessage renderFrame fixedFrame srcFrame) srcFrame"
  unfolding missingTransformMessage_def
  by (intro mentions_append_left mentions_prefix)+

lemma examplePose_known:
  "hasFrame tree rf \<Longrightarrow> hasFrame tree ff \<Longrightarrow> hasFrame tree src \<Longrightarrow>
   examplePose r tree rf ff src dst srcT =
     (True, r\<lparr>obj_position := Vector3 (Finite (real_of_int srcT)) (Finite 0) (Finite 0),
              obj_quaternion := Quaternion (Finite 0) (Finite 0) (Finite 0) (Finite 1)\<rparr>)"
  by (simp add: examplePose_def updatePoseSpec_def timedResolve_def)

lemma examplePose_unknown:
  "\<not> hasFrame tree src \<Longrightarrow> examplePose r tree rf ff src dst srcT = (False, r)"
  by (simp add: examplePose_def updatePoseSpec_def timedResolve_def split: option.splits)

lemma robotTree_has:
  "hasFrame robotTree ''map''" "hasFrame robotTree ''odom''" "hasFrame robotTree ''camera''"
  "\<not> hasFrame robotTree ''lidar''"
  by (simp_all add: hasFrame_def frame_def robotTree_def)

text \<open>
  C1. For every visible renderable that \<^verbatim>\<open>startFrame\<close> processes, the run applies
  \<^verbatim>\<open>updatePose\<close> to it with the current render time as source time when the renderable
  is frame-locked, and with the renderable's own message time when it is not
  frame-locked: after the run the renderable is the one that this call of
  \<^verbatim>\<open>updatePose\<close> returns, and, when no later renderable has the same settings path,
  its missing-transform diagnostic is absent exactly when this call succeeded. This holds
  for every \<^verbatim>\<open>updatePose\<close>, for every renderable of the run (\<open>pre\<close> is processed
  before it, \<open>post\<close> after it).
\<close>

theorem startFrame_source_time:
  assumes "visible (settings (userData r))"
  shows "let out = startFrame upd tree ct rf ff errs (pre @ (k, r) # post);
             atTime = (\<lambda>T. upd (r\<lparr>obj_visible := True\<rparr>) tree rf ff (frameId (userData r)) ct T);
             key = (settingsPath (userData r), MISSING_TRANSFORM);
             lastAtPath = (\<forall>kr \<in> set post.
                             settingsPath (userData (snd kr)) \<noteq> settingsPath (userData r))
         in (frameLocked (settings (userData r)) = Some True \<longrightarrow>
               snd (fst out ! length pre) = snd (atTime ct)
               \<and> (lastAtPath \<longrightarrow> (snd out key = None) = fst (atTime ct)))
            \<and> (frameLocked (settings (userData r)) = Some False \<longrightarrow>
               snd (fst out ! length pre) = snd (atTime (messageTime (userData r)))
               \<and> (lastAtPath \<longrightarrow>
                    (snd out key = None) = fst (atTime (messageTime (userData r)))))"
  using startFrame_at[OF assms, where upd=upd and tree=tree and ct=ct and rf=rf and ff=ff and errs=errs and pre=pre and k=k and post=post]
  by (auto simp: Let_def)

text \<open>
  In the robot tree at render time 9, with message time 5: the frame-locked renderable is
  posed at time 9, the renderable that is not frame-locked at time 5.
\<close>

theorem startFrame_source_time_witness:
  "map (\<lambda>kr. obj_position (snd kr))
     (fst (startFrame examplePose robotTree 9 ''odom'' ''map'' (\<lambda>k. None)
        [(''a'', exampleRenderable ''camera'' True (Some True)),
         (''b'', exampleRenderable ''odom'' True (Some False))]))
   = [Vector3 (Finite 9) (Finite 0) (Finite 0), Vector3 (Finite 5) (Finite 0) (Finite 0)]"
proof -
  let ?a = "exampleRenderable ''camera'' True (Some True)"
  let ?b = "exampleRenderable ''odom'' True (Some False)"
  let ?out = "startFrame examplePose robotTree 9 ''odom'' ''map'' (\<lambda>k. None)
      [(''a'', ?a), (''b'', ?b)]"
  have vis: "visible (settings (userData ?a))" "visible (settings (userData ?b))"
    by (simp_all add: exampleRenderable_def)
  have fields:
    "frameLocked (settings (userData ?a)) = Some True" "frameId (userData ?a) = ''camera''"
    "frameLocked (settings (userData ?b)) = Some False" "frameId (userData ?b) = ''odom''"
    "messageTime (userData ?b) = 5"
    by (simp_all add: exampleRenderable_def)
  have first: "snd (fst ?out ! 0) =
      snd (examplePose (?a\<lparr>obj_visible := True\<rparr>) robotTree ''odom'' ''map'' ''camera'' 9 9)"
    using startFrame_source_time[OF vis(1), of examplePose robotTree 9 "''odom''" "''map''"
        "\<lambda>k. None" "[]" "''a''" "[(''b'', ?b)]"]
    by (simp add: Let_def fields)
  have second: "snd (fst ?out ! 1) =
      snd (examplePose (?b\<lparr>obj_visible := True\<rparr>) robotTree ''odom'' ''map'' ''odom'' 9 5)"
    using startFrame_source_time[OF vis(2), of examplePose robotTree 9 "''odom''" "''map''"
        "\<lambda>k. None" "[(''a'', ?a)]" "''b''" "[]"]
    by (simp add: Let_def fields)
  have len: "length (fst ?out) = 2" unfolding length_startFrame by simp
  then obtain x y where xy: "fst ?out = [x, y]"
    by (cases "fst ?out"; cases "tl (fst ?out)") auto
  have "obj_position (snd x) = Vector3 (Finite 9) (Finite 0) (Finite 0)"
    using first[unfolded xy] by (simp add: examplePose_known robotTree_has)
  moreover have "obj_position (snd y) = Vector3 (Finite 5) (Finite 0) (Finite 0)"
    using second[unfolded xy] by (simp add: examplePose_known robotTree_has)
  ultimately show ?thesis unfolding xy by simp
qed

text \<open>
  C9. A renderable whose settings leave \<^verbatim>\<open>frameLocked\<close> undefined is treated as
  frame-locked: for such a visible renderable \<^verbatim>\<open>startFrame\<close> applies
  \<^verbatim>\<open>updatePose\<close> with the current render time as source time, not with its message
  time. After the run the renderable is the one that this call returns, and, when no later
  renderable has the same settings path, its missing-transform diagnostic is absent exactly
  when this call succeeded.
\<close>

theorem startFrame_default_frame_locked:
  assumes "visible (settings (userData r))"
    and "frameLocked (settings (userData r)) = None"
  shows "let out = startFrame upd tree ct rf ff errs (pre @ (k, r) # post);
             res = upd (r\<lparr>obj_visible := True\<rparr>) tree rf ff (frameId (userData r)) ct ct;
             key = (settingsPath (userData r), MISSING_TRANSFORM)
         in snd (fst out ! length pre) = snd res
            \<and> ((\<forall>kr \<in> set post.
                   settingsPath (userData (snd kr)) \<noteq> settingsPath (userData r))
                 \<longrightarrow> (snd out key = None) = fst res)"
  using startFrame_at[OF assms(1), where upd=upd and tree=tree and ct=ct and rf=rf and ff=ff and errs=errs and pre=pre and k=k and post=post] assms(2)
  by (auto simp: Let_def)

text \<open>
  With \<^verbatim>\<open>frameLocked\<close> undefined the renderable is posed at render time 9, not at its
  message time 5.
\<close>

theorem startFrame_default_frame_locked_witness:
  "map (\<lambda>kr. obj_position (snd kr))
     (fst (startFrame examplePose robotTree 9 ''odom'' ''map'' (\<lambda>k. None)
        [(''e'', exampleRenderable ''odom'' True None)]))
   = [Vector3 (Finite 9) (Finite 0) (Finite 0)]"
proof -
  let ?e = "exampleRenderable ''odom'' True None"
  let ?out = "startFrame examplePose robotTree 9 ''odom'' ''map'' (\<lambda>k. None) [(''e'', ?e)]"
  have vis: "visible (settings (userData ?e))"
    and unset: "frameLocked (settings (userData ?e)) = None"
    and fid: "frameId (userData ?e) = ''odom''"
    by (simp_all add: exampleRenderable_def)
  have first: "snd (fst ?out ! 0) =
      snd (examplePose (?e\<lparr>obj_visible := True\<rparr>) robotTree ''odom'' ''map'' ''odom'' 9 9)"
    using startFrame_default_frame_locked[OF vis unset, of examplePose robotTree 9 "''odom''"
        "''map''" "\<lambda>k. None" "[]" "''e''" "[]"]
    by (simp add: Let_def fid)
  have len: "length (fst ?out) = 1" unfolding length_startFrame by simp
  then obtain x where x: "fst ?out = [x]"
    by (cases "fst ?out") auto
  have "obj_position (snd x) = Vector3 (Finite 9) (Finite 0) (Finite 0)"
    using first[unfolded x] by (simp add: examplePose_known robotTree_has)
  then show ?thesis unfolding x by simp
qed

text \<open>
  C2. For every visible renderable that \<^verbatim>\<open>startFrame\<close> processes, with no later
  renderable of the run at the same settings path (in particular right after the
  renderable has been processed, when \<open>post\<close> is empty): if \<^verbatim>\<open>updatePose\<close> failed,
  the layer errors hold at the renderable's settings path, under the code for a missing
  transform, the diagnostic message, which names the render frame, the fixed frame and the
  renderable's frame; if it succeeded, there is no missing-transform diagnostic at that
  path. In both cases the renderable after the run is the one \<^verbatim>\<open>updatePose\<close> left
  behind, with the pose it applied. This holds for every \<^verbatim>\<open>updatePose\<close>.
\<close>

theorem startFrame_missing_transform:
  assumes "visible (settings (userData r))"
    and "\<forall>kr \<in> set post. settingsPath (userData (snd kr)) \<noteq> settingsPath (userData r)"
  shows "let res = upd (r\<lparr>obj_visible := True\<rparr>) tree rf ff (frameId (userData r)) ct
                     (if orElse (frameLocked (settings (userData r))) True then ct
                      else messageTime (userData r));
             out = startFrame upd tree ct rf ff errs (pre @ (k, r) # post);
             key = (settingsPath (userData r), MISSING_TRANSFORM);
             msg = missingTransformMessage rf ff (frameId (userData r))
         in (\<not> fst res \<longrightarrow>
               snd out key = Some msg
               \<and> mentions msg rf \<and> mentions msg ff \<and> mentions msg (frameId (userData r)))
            \<and> (fst res \<longrightarrow> snd out key = None)
            \<and> fst out ! length pre = (k, snd res)"
  using startFrame_at[OF assms(1), where upd=upd and tree=tree and ct=ct and rf=rf and ff=ff and errs=errs and pre=pre and k=k and post=post] assms(2)
    missingTransformMessage_mentions[of rf ff "frameId (userData r)"]
  by (simp add: Let_def)

text \<open>
  With the pipeline of the spec for \<^verbatim>\<open>updatePose\<close>: the frame \<open>lidar\<close> is unknown,
  so the diagnostic is recorded; \<open>camera\<close> resolves, the earlier diagnostic at its path is
  removed and the resolved position is applied.
\<close>

theorem startFrame_missing_transform_witness:
  "snd (startFrame examplePose robotTree 9 ''odom'' ''map'' staleErrors
         [(''b'', exampleRenderable ''lidar'' True None),
          (''a'', exampleRenderable ''camera'' True None)])
     ([''topics'', ''lidar''], MISSING_TRANSFORM)
     = Some ''Missing transform from frame <lidar> to frame <odom> via frame <map>''
   \<and> staleErrors ([''topics'', ''camera''], MISSING_TRANSFORM) = Some ''stale''
   \<and> snd (startFrame examplePose robotTree 9 ''odom'' ''map'' staleErrors
         [(''b'', exampleRenderable ''lidar'' True None),
          (''a'', exampleRenderable ''camera'' True None)])
     ([''topics'', ''camera''], MISSING_TRANSFORM)
     = None
   \<and> obj_position (snd (fst (startFrame examplePose robotTree 9 ''odom'' ''map'' staleErrors
         [(''b'', exampleRenderable ''lidar'' True None),
          (''a'', exampleRenderable ''camera'' True None)]) ! 1))
     = Vector3 (Finite 9) (Finite 0) (Finite 0)"
proof -
  let ?b = "exampleRenderable ''lidar'' True None"
  let ?a = "exampleRenderable ''camera'' True None"
  let ?out = "startFrame examplePose robotTree 9 ''odom'' ''map'' staleErrors
      [(''b'', ?b), (''a'', ?a)]"
  have vis: "visible (settings (userData ?b))" "visible (settings (userData ?a))"
    by (simp_all add: exampleRenderable_def)
  have fields:
    "frameLocked (settings (userData ?b)) = None" "frameId (userData ?b) = ''lidar''"
    "settingsPath (userData ?b) = [''topics'', ''lidar'']"
    "frameLocked (settings (userData ?a)) = None" "frameId (userData ?a) = ''camera''"
    "settingsPath (userData ?a) = [''topics'', ''camera'']"
    by (simp_all add: exampleRenderable_def)
  have later_b: "\<forall>kr \<in> set [(''a'', ?a)].
      settingsPath (userData (snd kr)) \<noteq> settingsPath (userData ?b)"
    by (simp add: fields)
  have later_a: "\<forall>kr \<in> set ([] :: (string \<times> Renderable) list).
      settingsPath (userData (snd kr)) \<noteq> settingsPath (userData ?a)"
    by simp
  have fails: "examplePose (?b\<lparr>obj_visible := True\<rparr>) robotTree ''odom'' ''map'' ''lidar'' 9 9
      = (False, ?b\<lparr>obj_visible := True\<rparr>)"
    by (simp add: examplePose_unknown robotTree_has)
  have succeeds: "examplePose (?a\<lparr>obj_visible := True\<rparr>) robotTree ''odom'' ''map'' ''camera'' 9 9
      = (True, ?a\<lparr>obj_visible := True,
                   obj_position := Vector3 (Finite 9) (Finite 0) (Finite 0),
                   obj_quaternion := Quaternion (Finite 0) (Finite 0) (Finite 0) (Finite 1)\<rparr>)"
    by (simp add: examplePose_known robotTree_has)
  have lidar: "snd ?out ([''topics'', ''lidar''], MISSING_TRANSFORM)
      = Some (missingTransformMessage ''odom'' ''map'' ''lidar'')"
    using startFrame_missing_transform[OF vis(1) later_b, of examplePose robotTree "''odom''"
        "''map''" 9 staleErrors "[]" "''b''"]
    by (simp add: Let_def fields fails)
  have camera: "snd ?out ([''topics'', ''camera''], MISSING_TRANSFORM) = None
      \<and> fst ?out ! 1 = (''a'', ?a\<lparr>obj_visible := True,
                   obj_position := Vector3 (Finite 9) (Finite 0) (Finite 0),
                   obj_quaternion := Quaternion (Finite 0) (Finite 0) (Finite 0) (Finite 1)\<rparr>)"
    using startFrame_missing_transform[OF vis(2) later_a, of examplePose robotTree "''odom''"
        "''map''" 9 staleErrors "[(''b'', ?b)]" "''a''"]
    by (simp add: Let_def fields succeeds)
  have stale: "staleErrors ([''topics'', ''camera''], MISSING_TRANSFORM) = Some ''stale''"
    by (simp add: staleErrors_def errors_add_def)
  have msg: "missingTransformMessage ''odom'' ''map'' ''lidar''
      = ''Missing transform from frame <lidar> to frame <odom> via frame <map>''"
    by (simp add: missingTransformMessage_def)
  show ?thesis
    using lidar camera stale by (simp add: msg)
qed

section \<open>Normalisation of rotations\<close>

text \<open>
  C10. \<^verbatim>\<open>normalizeQuaternion\<close> returns the identity quaternion for an undefined argument;
  for an object, every missing component, also \<open>w\<close>, becomes 0 and every present component
  is kept, so the empty object gives the all-zero quaternion, which is not the identity;
  \<^verbatim>\<open>normalizeTransform\<close> passes the rotation through \<^verbatim>\<open>normalizeQuaternion\<close> and so
  gives a transform with an all-zero rotation for a present but empty rotation object.
\<close>

theorem normalizeQuaternion_defaults:
  "normalizeQuaternion None = Quaternion (Finite 0) (Finite 0) (Finite 0) (Finite 1)
   \<and> normalizeQuaternion (Some (PartialQuaternion None None None None))
       = Quaternion (Finite 0) (Finite 0) (Finite 0) (Finite 0)
   \<and> normalizeQuaternion (Some (PartialQuaternion None None None None))
       \<noteq> normalizeQuaternion None
   \<and> qx (normalizeQuaternion (Some (PartialQuaternion a b c d))) = orElse a (Finite 0)
   \<and> qy (normalizeQuaternion (Some (PartialQuaternion a b c d))) = orElse b (Finite 0)
   \<and> qz (normalizeQuaternion (Some (PartialQuaternion a b c d))) = orElse c (Finite 0)
   \<and> qw (normalizeQuaternion (Some (PartialQuaternion a b c d))) = orElse d (Finite 0)
   \<and> rotation (normalizeTransform (Some (RawTransform tr (Some (PartialQuaternion None None None None)))))
       = Quaternion (Finite 0) (Finite 0) (Finite 0) (Finite 0)
   \<and> rotation (normalizeTransform (Some (RawTransform tr None)))
       = Quaternion (Finite 0) (Finite 0) (Finite 0) (Finite 1)"
  by simp

section \<open>Retention window\<close>

text \<open>
  C8. The Renderer constructs its transform tree with a retention window of exactly
  60 seconds in nanoseconds, 60 times 10 to the 9th.
\<close>

theorem renderer_retention_window:
  "maxStorageTime (transformTree initialRenderer) = 60 * 10 ^ 9
   \<and> TRANSFORM_STORAGE_TIME_NS = 60000000000"
  by (simp add: initialRenderer_def newTransformTree_def TRANSFORM_STORAGE_TIME_NS_def)

end
